theory Spec2Isabelle
  imports Complex_Main
begin

section \<open>Errors and strings\<close>

text \<open>
  A Go \<^verbatim>\<open>error\<close> value: \<^verbatim>\<open>errors.New(msg)\<close> and \<^verbatim>\<open>fmt.Errorf\<close> with a text argument
  build one from text; \<^verbatim>\<open>fmt.Errorf(prefix + "%v", err)\<close> puts a text before another
  error; and the libraries hand back errors of their own, of which the model keeps the
  kind and not the text (\<^verbatim>\<open>base64.CorruptInputError\<close>, \<^verbatim>\<open>*json.SyntaxError\<close>,
  \<^verbatim>\<open>*json.UnmarshalTypeError\<close>).  A value of type \<open>error option\<close> is Go's nilable
  \<^verbatim>\<open>error\<close> (\<open>None\<close> is \<^verbatim>\<open>nil\<close>).
\<close>

datatype error =
    errors_New string
  | fmt_Errorf string error
  | base64_CorruptInputError
  | json_SyntaxError
  | json_UnmarshalTypeError

text \<open>
  \<^verbatim>\<open>strings.Split(s, sep)\<close> for a one-byte separator: the pieces of \<open>s\<close> around every
  occurrence of \<open>sep\<close>; \<open>n\<close> separators give \<open>n + 1\<close> pieces, the empty string gives one
  empty piece.
\<close>

primrec strings_Split :: "string \<Rightarrow> char \<Rightarrow> string list" where
  "strings_Split [] sep = [[]]"
| "strings_Split (c # cs) sep =
     (if c = sep then [] # strings_Split cs sep
      else (case strings_Split cs sep of
              [] \<Rightarrow> [[c]]
            | p # ps \<Rightarrow> (c # p) # ps))"

section \<open>base64.RawURLEncoding\<close>

text \<open>
  The URL-safe alphabet without padding.  Bytes are \<open>char\<close>s; a quantum is three bytes
  or four 6-bit values, and the shifts and masks of Go's \<^verbatim>\<open>encoding/base64\<close> are written as
  \<open>div\<close> and \<open>mod\<close> by powers of two.  The decoder skips carriage returns and line feeds,
  refuses every other byte outside the alphabet (the padding character included) and a
  final group of a single character, and does not check the unused trailing bits (it is
  not in strict mode).
\<close>

definition encodeURL :: string where
  "encodeURL = ''ABCDEFGHIJKLMNOPQRSTUVWXYZabcdefghijklmnopqrstuvwxyz0123456789-_''"

definition decodeMap :: "char \<Rightarrow> nat option" where
  "decodeMap = map_of (zip encodeURL [0..<64])"

fun encode_quanta :: "nat list \<Rightarrow> nat list" where
  "encode_quanta (a # b # c # src) =
     (let val = a * 65536 + b * 256 + c
      in [val div 262144 mod 64, val div 4096 mod 64, val div 64 mod 64, val mod 64]
           @ encode_quanta src)"
| "encode_quanta [a, b] =
     (let val = a * 65536 + b * 256
      in [val div 262144 mod 64, val div 4096 mod 64, val div 64 mod 64])"
| "encode_quanta [a] =
     (let val = a * 65536
      in [val div 262144 mod 64, val div 4096 mod 64])"
| "encode_quanta [] = []"

definition RawURLEncoding_EncodeToString :: "string \<Rightarrow> string" where
  "RawURLEncoding_EncodeToString src =
     map (\<lambda>v. encodeURL ! v) (encode_quanta (map of_char src))"

fun decode_quanta :: "nat list \<Rightarrow> error + nat list" where
  "decode_quanta (w # x # y # z # src) =
     (let val = w * 262144 + x * 4096 + y * 64 + z
      in case decode_quanta src of
           Inl e \<Rightarrow> Inl e
         | Inr dst \<Rightarrow> Inr (val div 65536 mod 256 # val div 256 mod 256 # val mod 256 # dst))"
| "decode_quanta [w, x, y] =
     (let val = w * 262144 + x * 4096 + y * 64
      in Inr [val div 65536 mod 256, val div 256 mod 256])"
| "decode_quanta [w, x] =
     (let val = w * 262144 + x * 4096
      in Inr [val div 65536 mod 256])"
| "decode_quanta [w] = Inl base64_CorruptInputError"
| "decode_quanta [] = Inr []"

definition RawURLEncoding_DecodeString :: "string \<Rightarrow> error + string" where
  "RawURLEncoding_DecodeString s =
     (let src = filter (\<lambda>c. c \<noteq> CHR 0x0A \<and> c \<noteq> CHR 0x0D) s
      in case those (map decodeMap src) of
           None \<Rightarrow> Inl base64_CorruptInputError
         | Some q \<Rightarrow> (case decode_quanta q of
                        Inl e \<Rightarrow> Inl e
                      | Inr dst \<Rightarrow> Inr (map char_of dst)))"

section \<open>Data model\<close>

text \<open>
  The values \<^verbatim>\<open>encoding/json\<close> stores into an \<^verbatim>\<open>interface{}\<close>.  A JSON number becomes a
  \<^verbatim>\<open>float64\<close>; the model keeps the exact rational value of that float.
\<close>

datatype json =
    JSON_null
  | JSON_bool bool
  | JSON_float64 rat
  | JSON_string string
  | JSON_array "json list"
  | JSON_object "(string \<times> json) list"

type_synonym claims = "string \<rightharpoonup> json"

text \<open>The Go struct \<^verbatim>\<open>Error\<close>: one field-level entry of a \<^verbatim>\<open>BadRequest\<close>.\<close>

record Error =
  Error_Key :: string
  Error_Path :: string
  Error_Message :: string

record BadRequest =
  Name :: string
  Message :: string
  BadRequest_Error :: string
  ErrorDescription :: string
  Errors :: "Error list option"

text \<open>
  \<^verbatim>\<open>Token\<close> embeds \<^verbatim>\<open>BadRequest\<close>; its own field \<^verbatim>\<open>Error\<close> is the Go \<^verbatim>\<open>error\<close> of the
  call (never read from JSON).
\<close>

record Token =
  AccessToken :: string
  TokenType :: string
  ExpiresIn :: int
  Scope :: string
  Error :: "error option"
  Token_BadRequest :: BadRequest

record Credentials =
  ClientID :: string
  ClientSecret :: string
  Timeout :: int
  Sandbox :: bool
  CA :: string
  Key :: string

record Paginacao =
  PaginaAtual :: int
  ItensPorPagina :: int
  QuantidadeDePaginas :: int
  QuantidadeTotalDeItens :: int

record Parametros =
  Inicio :: string
  Fim :: string
  Parametros_Paginacao :: Paginacao

record Webhooks =
  WebhookUrl :: string
  Webhooks_Chave :: string
  Webhooks_Criacao :: string

record Webhook =
  WebhookURL :: string
  Chave :: string
  SkipMTLS :: bool
  Criacao :: string
  Webhook_Parametros :: "Parametros option"
  Webhook_Paginacao :: "Paginacao option"
  Webhook_Webhooks :: "Webhooks list option"
  Webhook_BadRequest :: BadRequest

text \<open>Zero values (\<^verbatim>\<open>BadRequest{}\<close>, \<^verbatim>\<open>Token{}\<close>) and \<^verbatim>\<open>Token{Error: err}\<close>.\<close>

definition BadRequest_zero :: BadRequest where
  "BadRequest_zero =
     \<lparr>Name = [], Message = [], BadRequest_Error = [], ErrorDescription = [], Errors = None\<rparr>"

definition Token_zero :: Token where
  "Token_zero =
     \<lparr>AccessToken = [], TokenType = [], ExpiresIn = 0, Scope = [], Error = None,
      Token_BadRequest = BadRequest_zero\<rparr>"

definition Token_Error :: "error \<Rightarrow> Token" where
  "Token_Error err = Token_zero\<lparr>Error := Some err\<rparr>"

subsection \<open>The outside world\<close>

datatype stat_result = Stat_ok | Stat_not_exist | Stat_other_error

datatype tls_Certificate = tls_Certificate string

record http_Client =
  Client_Timeout :: int
  Certificates :: "tls_Certificate list"

record http_Request =
  Method :: string
  URL :: string
  Request_Body :: "string option"
  BasicAuth :: "(string \<times> string) option"
  Header :: "(string \<times> string) list"

text \<open>
  A response as the code reads it: the status code, and what \<^verbatim>\<open>io.ReadAll(res.Body)\<close>
  gives.
\<close>

record http_Response =
  StatusCode :: int
  Response_Body :: "error + string"

text \<open>
  Everything an operation takes from outside the repository: the clock, the file system,
  the TLS loader, the network, and the library functions \<^verbatim>\<open>url.JoinPath\<close>,
  \<^verbatim>\<open>http.NewRequest\<close> and \<^verbatim>\<open>json.Unmarshal\<close> (at the three target types the code uses).
  The operations are functions of such a world, and the theorems hold for every world.
  The clock is read as the runtime reads it: whole seconds since the Unix epoch and the
  nanoseconds within the second.  The field \<open>int64_out_of_range\<close> is what the platform
  makes of the conversion \<^verbatim>\<open>int64(x)\<close> for a \<^verbatim>\<open>float64\<close> outside the range of \<^verbatim>\<open>int64\<close>,
  which Go leaves to the implementation.
\<close>

record world =
  clock_sec :: int
  clock_nsec :: int
  int64_out_of_range :: "rat \<Rightarrow> int"
  os_Stat :: "string \<Rightarrow> stat_result"
  tls_LoadX509KeyPair :: "string \<Rightarrow> string \<Rightarrow> error + tls_Certificate"
  url_JoinPath :: "string \<Rightarrow> string list \<Rightarrow> error + string"
  http_NewRequest :: "string \<Rightarrow> string \<Rightarrow> error option"
  client_Do :: "http_Client \<Rightarrow> http_Request \<Rightarrow> error + http_Response"
  json_Unmarshal_claims :: "string \<Rightarrow> error + claims"
  json_Unmarshal_Token :: "string \<Rightarrow> error + Token"
  json_Unmarshal_Webhook :: "string \<Rightarrow> Webhook \<Rightarrow> error option \<times> Webhook"

text \<open>The calls that leave the process, in the order an operation makes them.\<close>

datatype io = io_LoadX509KeyPair string string | io_Do http_Client http_Request

text \<open>The package-level variables \<^verbatim>\<open>Client\<close>, \<^verbatim>\<open>EFI_BASE_URL\<close> and \<^verbatim>\<open>Authorization\<close>.\<close>

record globals =
  Client :: "Credentials option"
  EFI_BASE_URL :: string
  Authorization :: Token

definition globals_init :: globals where
  "globals_init = \<lparr>Client = None, EFI_BASE_URL = [], Authorization = Token_zero\<rparr>"

definition EFI_PRODUCTION_URL :: string where
  "EFI_PRODUCTION_URL = ''https://pix.api.efipay.com.br''"

definition EFI_STAGING_URL :: string where
  "EFI_STAGING_URL = ''https://pix-h.api.efipay.com.br''"

subsection \<open>Machine integers and the package \<^verbatim>\<open>time\<close>\<close>

text \<open>
  Arithmetic on \<^verbatim>\<open>int64\<close> wraps around; integer division truncates towards zero.
\<close>

definition int64 :: "int \<Rightarrow> int" where
  "int64 x = (x + 9223372036854775808) mod 18446744073709551616 - 9223372036854775808"

definition quo :: "int \<Rightarrow> int \<Rightarrow> int" where
  "quo a b = (if (a < 0) = (b < 0) then \<bar>a\<bar> div \<bar>b\<bar> else - (\<bar>a\<bar> div \<bar>b\<bar>))"

definition rem :: "int \<Rightarrow> int \<Rightarrow> int" where
  "rem a b = a - b * quo a b"

text \<open>
  The conversion \<^verbatim>\<open>int64(x)\<close> of a \<^verbatim>\<open>float64\<close> discards the fraction (truncation towards
  zero) when the result is in the range of \<^verbatim>\<open>int64\<close>; outside the range the result is the
  platform's.
\<close>

definition math_Trunc :: "rat \<Rightarrow> int" where
  "math_Trunc x = (if x < 0 then - \<lfloor>- x\<rfloor> else \<lfloor>x\<rfloor>)"

definition int64_of_float64 :: "('w::type) world_scheme \<Rightarrow> rat \<Rightarrow> int" where
  "int64_of_float64 W x =
     (if - 9223372036854775808 \<le> math_Trunc x \<and> math_Trunc x \<le> 9223372036854775807
      then math_Trunc x
      else int64 (int64_out_of_range W x))"

text \<open>
  A \<^verbatim>\<open>time.Time\<close> is kept as the package compares it: the seconds since January 1 of
  year 1 (an \<^verbatim>\<open>int64\<close>) and the nanoseconds within the second.  \<^verbatim>\<open>time.Unix\<close> brings
  the nanoseconds into range and adds the offset \<^verbatim>\<open>unixToInternal\<close> to the seconds, in
  \<^verbatim>\<open>int64\<close>; \<^verbatim>\<open>Add\<close> carries the nanoseconds and adds the seconds with \<^verbatim>\<open>addSec\<close>,
  which stops at the largest and smallest value instead of wrapping; \<^verbatim>\<open>After\<close> compares
  seconds, then nanoseconds (the time of \<^verbatim>\<open>time.Unix\<close> has no monotonic reading, so the
  wall clock is compared).  A duration is a number of nanoseconds.
\<close>

record Time =
  Time_sec :: int
  Time_nsec :: int

definition unixToInternal :: int where
  "unixToInternal = 62135596800"

definition time_Second :: int where
  "time_Second = 1000000000"

definition unixTime :: "int \<Rightarrow> int \<Rightarrow> Time" where
  "unixTime sec nsec = \<lparr>Time_sec = int64 (sec + unixToInternal), Time_nsec = nsec\<rparr>"

definition time_Unix :: "int \<Rightarrow> int \<Rightarrow> Time" where
  "time_Unix sec nsec =
     (if nsec < 0 \<or> 1000000000 \<le> nsec then
        (let n = quo nsec 1000000000;
             sec1 = int64 (sec + n);
             nsec1 = int64 (nsec - n * 1000000000)
         in if nsec1 < 0 then unixTime (int64 (sec1 - 1)) (nsec1 + 1000000000)
            else unixTime sec1 nsec1)
      else unixTime sec nsec)"

definition addSec :: "int \<Rightarrow> int \<Rightarrow> int" where
  "addSec ext d =
     (let sum = int64 (ext + d)
      in if (ext < sum) = (0 < d) then sum
         else if 0 < d then 9223372036854775807
         else - 9223372036854775807)"

definition time_Add :: "Time \<Rightarrow> int \<Rightarrow> Time" where
  "time_Add t d =
     (let dsec = quo d 1000000000;
          nsec = Time_nsec t + rem d 1000000000
      in if 1000000000 \<le> nsec
         then \<lparr>Time_sec = addSec (Time_sec t) (dsec + 1), Time_nsec = nsec - 1000000000\<rparr>
         else if nsec < 0
         then \<lparr>Time_sec = addSec (Time_sec t) (dsec - 1), Time_nsec = nsec + 1000000000\<rparr>
         else \<lparr>Time_sec = addSec (Time_sec t) dsec, Time_nsec = nsec\<rparr>)"

definition time_After :: "Time \<Rightarrow> Time \<Rightarrow> bool" where
  "time_After t u =
     (Time_sec u < Time_sec t \<or> (Time_sec t = Time_sec u \<and> Time_nsec u < Time_nsec t))"

definition time_Now :: "('w::type) world_scheme \<Rightarrow> Time" where
  "time_Now W = \<lparr>Time_sec = int64 (clock_sec W + unixToInternal), Time_nsec = clock_nsec W\<rparr>"

text \<open>
  The ranges in which these operations do not overflow: a clock whose nanoseconds are
  below one second and whose seconds, 30 seconds later included, fit the internal
  \<^verbatim>\<open>int64\<close>; and an expiry, in whole seconds, that fits \<^verbatim>\<open>int64\<close> and, with the offset of
  \<^verbatim>\<open>time.Unix\<close> added, still fits it.
\<close>

definition clock_in_range :: "('w::type) world_scheme \<Rightarrow> bool" where
  "clock_in_range W \<longleftrightarrow>
     0 \<le> clock_nsec W \<and> clock_nsec W < 1000000000
     \<and> - 9223372036854775808 \<le> clock_sec W + unixToInternal
     \<and> clock_sec W + unixToInternal + 30 \<le> 9223372036854775807"

definition expiry_in_range :: "int \<Rightarrow> bool" where
  "expiry_in_range x \<longleftrightarrow>
     - 9223372036854775808 \<le> x \<and> x + unixToInternal \<le> 9223372036854775807"

section \<open>The token claims decoder (\<^verbatim>\<open>decodeJWT\<close>)\<close>

definition decodeJWT :: "('w::type) world_scheme \<Rightarrow> string \<Rightarrow> error + claims" where
  "decodeJWT W token =
     (let parts = strings_Split token (CHR ''.'')
      in if length parts \<noteq> 3 then Inl (errors_New ''invalid token: must have 3 parts'')
         else
           (case RawURLEncoding_DecodeString (parts ! 1) of
              Inl err \<Rightarrow> Inl (errors_New ''failed to decode token payload'')
            | Inr payload \<Rightarrow>
                (case json_Unmarshal_claims W payload of
                   Inl err \<Rightarrow> Inl (errors_New ''failed to decode JSON payload'')
                 | Inr claims \<Rightarrow> Inr claims)))"

section \<open>The token cache and the authenticator\<close>

text \<open>\<^verbatim>\<open>authorization()\<close>: \<^verbatim>\<open>fmt.Sprintf("%s %s", TokenType, AccessToken)\<close>.\<close>

definition authorization :: "('g::type) globals_scheme \<Rightarrow> string" where
  "authorization st = TokenType (Authorization st) @ '' '' @ AccessToken (Authorization st)"

text \<open>
  \<^verbatim>\<open>checkToken\<close> returns a \<^verbatim>\<open>*Token\<close>: \<^verbatim>\<open>nil\<close>, the address of the package variable
  \<^verbatim>\<open>Authorization\<close>, or the address of a new \<^verbatim>\<open>Token\<close> that holds an error.
\<close>

datatype Token_ptr = nil_Token | addr_Authorization | addr_new Token

definition checkToken :: "('w::type) world_scheme \<Rightarrow> ('g::type) globals_scheme \<Rightarrow> Token_ptr" where
  "checkToken W st =
     (if AccessToken (Authorization st) \<noteq> [] then
        (let token = strings_Split (authorization st) (CHR '' '') ! 1
         in case decodeJWT W token of
              Inl err \<Rightarrow> addr_new (Token_Error err)
            | Inr claims \<Rightarrow>
                (case claims ''exp'' of
                   Some (JSON_float64 exp') \<Rightarrow>
                     if time_After (time_Unix (int64_of_float64 W exp') 0)
                          (time_Add (time_Now W) (30 * time_Second))
                     then addr_Authorization
                     else nil_Token
                 | _ \<Rightarrow> nil_Token))
      else nil_Token)"

text \<open>
  The client every operation builds (\<^verbatim>\<open>&http.Client{Timeout: time.Second *
  time.Duration(Client.Timeout), ...}\<close> with the loaded certificate), and the request of the
  token exchange after \<^verbatim>\<open>SetBasicAuth\<close> and \<^verbatim>\<open>Header.Add\<close>; the request carries the
  credentials of \<^verbatim>\<open>SetBasicAuth\<close> in the field \<open>BasicAuth\<close>.
\<close>

definition new_http_Client :: "Credentials \<Rightarrow> tls_Certificate \<Rightarrow> http_Client" where
  "new_http_Client c cert =
     \<lparr>Client_Timeout = int64 (time_Second * Timeout c), Certificates = [cert]\<rparr>"

definition token_Request :: "Credentials \<Rightarrow> string \<Rightarrow> http_Request" where
  "token_Request c path =
     \<lparr>Method = ''POST'', URL = path,
      Request_Body = Some ''{\"grant_type\": \"client_credentials\"}'',
      BasicAuth = Some (ClientID c, ClientSecret c),
      Header = [(''Content-Type'', ''application/json'')]\<rparr>"

text \<open>
  \<^verbatim>\<open>OAuth\<close> returns the \<^verbatim>\<open>Token\<close>; the model returns with it the package variables after
  the call and the outside calls made.
\<close>

definition OAuth :: "('w::type) world_scheme \<Rightarrow> globals \<Rightarrow> Token \<times> globals \<times> io list" where
  "OAuth W st =
     (case Client st of
        None \<Rightarrow> (Token_Error (errors_New ''client not defined''), st, [])
      | Some c \<Rightarrow>
          (case checkToken W st of
             addr_Authorization \<Rightarrow> (Authorization st, st, [])
           | addr_new t \<Rightarrow> (t, st, [])
           | nil_Token \<Rightarrow>
               (let load = [io_LoadX509KeyPair (CA c) (Key c)]
                in case tls_LoadX509KeyPair W (CA c) (Key c) of
                     Inl err \<Rightarrow>
                       (Token_Error (fmt_Errorf ''failed to load certificates: '' err),
                        st, load)
                   | Inr cert \<Rightarrow>
                       (let client = new_http_Client c cert
                        in case url_JoinPath W (EFI_BASE_URL st) [''oauth'', ''token''] of
                             Inl err \<Rightarrow>
                               (Token_Error (fmt_Errorf ''failed to construct URL: '' err),
                                st, load)
                           | Inr path \<Rightarrow>
                               (case http_NewRequest W ''POST'' path of
                                  Some err \<Rightarrow> (Token_Error err, st, load)
                                | None \<Rightarrow>
                                    (let req = token_Request c path;
                                         calls = load @ [io_Do client req]
                                     in case client_Do W client req of
                                          Inl err \<Rightarrow> (Token_Error err, st, calls)
                                        | Inr res \<Rightarrow>
                                            (case Response_Body res of
                                               Inl err \<Rightarrow> (Token_Error err, st, calls)
                                             | Inr body \<Rightarrow>
                                                 (case json_Unmarshal_Token W body of
                                                    Inl err \<Rightarrow> (Token_Error err, st, calls)
                                                  | Inr token \<Rightarrow>
                                                      if StatusCode res \<noteq> 200
                                                      then (Token_Error (errors_New (''bad request: '' @ body)),
                                                            st, calls)
                                                      else (token, st\<lparr>Authorization := token\<rparr>, calls)))))))))"

section \<open>The credential store (\<^verbatim>\<open>NewClient\<close>)\<close>

text \<open>
  \<^verbatim>\<open>validation.Required\<close> of go-ozzo/ozzo-validation refuses an empty value: a string of
  length zero, an integer equal to zero.  \<^verbatim>\<open>ValidateStruct\<close> collects the failing fields
  under their names and reports them in the order of the names, as
  \<^verbatim>\<open>name: message; name: message.\<close>
\<close>

definition Required_string :: "string \<Rightarrow> string option" where
  "Required_string v = (if v = [] then Some ''cannot be blank'' else None)"

definition Required_int :: "int \<Rightarrow> string option" where
  "Required_int v = (if v = 0 then Some ''cannot be blank'' else None)"

fun strings_Join :: "string list \<Rightarrow> string \<Rightarrow> string" where
  "strings_Join [] sep = []"
| "strings_Join [x] sep = x"
| "strings_Join (x # y # xs) sep = x @ sep @ strings_Join (y # xs) sep"

definition Errors_string :: "(string \<times> string option) list \<Rightarrow> string" where
  "Errors_string fs =
     strings_Join
       (concat (map (\<lambda>(name, r). case r of None \<Rightarrow> [] | Some msg \<Rightarrow> [name @ '': '' @ msg]) fs))
       ''; '' @ ''.''"

definition ValidateStruct :: "Credentials \<Rightarrow> error option" where
  "ValidateStruct c =
     (let fs = [(''CA'', Required_string (CA c)),
                (''ClientID'', Required_string (ClientID c)),
                (''ClientSecret'', Required_string (ClientSecret c)),
                (''Key'', Required_string (Key c)),
                (''Timeout'', Required_int (Timeout c))]
      in if \<forall>f \<in> set fs. snd f = None then None
         else Some (errors_New (Errors_string fs)))"

definition fileExists :: "('w::type) world_scheme \<Rightarrow> string \<Rightarrow> error option" where
  "fileExists W fileName =
     (if os_Stat W fileName = Stat_not_exist
      then Some (errors_New (''file '' @ fileName @ '' not found''))
      else None)"

definition NewClient :: "('w::type) world_scheme \<Rightarrow> Credentials \<Rightarrow> globals \<Rightarrow> error option \<times> globals" where
  "NewClient W c st =
     (case ValidateStruct c of
        Some err \<Rightarrow> (Some err, st)
      | None \<Rightarrow>
          (case fileExists W (CA c) of
             Some err \<Rightarrow> (Some err, st)
           | None \<Rightarrow>
               (case fileExists W (Key c) of
                  Some err \<Rightarrow> (Some err, st)
                | None \<Rightarrow>
                    (None,
                     st\<lparr>EFI_BASE_URL := (if Sandbox c then EFI_STAGING_URL else EFI_PRODUCTION_URL),
                        Client := Some c\<rparr>))))"

section \<open>Webhook deletion (\<^verbatim>\<open>Webhook.Delete\<close>)\<close>

text \<open>
  \<^verbatim>\<open>Delete\<close> first calls \<^verbatim>\<open>OAuth\<close> (in the world \<open>W0\<close>) and then makes its own calls (in
  the world \<open>W\<close>).  It returns the error, the receiver after \<^verbatim>\<open>json.Unmarshal\<close>, the
  package variables and the outside calls.  The result \<open>None\<close> stands for the run-time
  panic of reading \<^verbatim>\<open>Client.CA\<close> through a nil \<^verbatim>\<open>Client\<close>.
\<close>

definition delete_Request :: "globals \<Rightarrow> string \<Rightarrow> http_Request" where
  "delete_Request st path =
     \<lparr>Method = ''DELETE'', URL = path, Request_Body = None, BasicAuth = None,
      Header = [(''Content-Type'', ''application/json''), (''authorization'', authorization st)]\<rparr>"

definition Delete ::
  "('v::type) world_scheme \<Rightarrow> ('w::type) world_scheme \<Rightarrow> Webhook \<Rightarrow> globals
     \<Rightarrow> (error option \<times> Webhook \<times> globals \<times> io list) option" where
  "Delete W0 W w st =
     (case OAuth W0 st of
        (token, st1, calls0) \<Rightarrow>
          (case Error token of
             Some err \<Rightarrow> Some (Some err, w, st1, calls0)
           | None \<Rightarrow>
               (case Client st1 of
                  None \<Rightarrow> None
                | Some c \<Rightarrow>
                    (let load = calls0 @ [io_LoadX509KeyPair (CA c) (Key c)]
                     in case tls_LoadX509KeyPair W (CA c) (Key c) of
                          Inl err \<Rightarrow> Some (Some err, w, st1, load)
                        | Inr cert \<Rightarrow>
                            (let client = new_http_Client c cert
                             in case url_JoinPath W (EFI_BASE_URL st1) [''v2'', ''webhook'', Chave w] of
                                  Inl err \<Rightarrow> Some (Some err, w, st1, load)
                                | Inr path \<Rightarrow>
                                    (case http_NewRequest W ''DELETE'' path of
                                       Some err \<Rightarrow> Some (Some err, w, st1, load)
                                     | None \<Rightarrow>
                                         (let req = delete_Request st1 path;
                                              calls = load @ [io_Do client req]
                                          in case client_Do W client req of
                                               Inl err \<Rightarrow> Some (Some err, w, st1, calls)
                                             | Inr res \<Rightarrow>
                                                 (case Response_Body res of
                                                    Inl err \<Rightarrow> Some (Some err, w, st1, calls)
                                                  | Inr body \<Rightarrow>
                                                      (case json_Unmarshal_Webhook W body w of
                                                         (uerr, w') \<Rightarrow>
                                                           if uerr \<noteq> None \<and> StatusCode res \<noteq> 204
                                                           then Some (uerr, w', st1, calls)
                                                           else if StatusCode res \<noteq> 204
                                                           then Some (Some (errors_New ''bad request''), w', st1, calls)
                                                           else Some (None, w', st1, calls))))))))))"

text \<open>
  The states the package can be in: the initial one, and every state a call of
  \<^verbatim>\<open>NewClient\<close> or \<^verbatim>\<open>OAuth\<close> leaves, in whatever world the call runs.
\<close>

inductive reachable :: "globals \<Rightarrow> bool" where
  reachable_init: "reachable globals_init"
| reachable_NewClient:
    "reachable st \<Longrightarrow> NewClient (W :: world) c st = (r, st') \<Longrightarrow> reachable st'"
| reachable_OAuth:
    "reachable st \<Longrightarrow> OAuth (W :: world) st = (t, st', calls) \<Longrightarrow> reachable st'"

section \<open>A JSON reader for the examples\<close>

text \<open>
  The theorems below hold for every world, whatever its \<^verbatim>\<open>json.Unmarshal\<close> does.  To run
  the operations on concrete inputs, this section gives one world: a reader for JSON texts
  (objects, arrays, strings with the one-letter escapes, numbers, \<^verbatim>\<open>true\<close>, \<^verbatim>\<open>false\<close>,
  \<^verbatim>\<open>null\<close>) and the assignment of a parsed object to the fields of \<^verbatim>\<open>Token\<close> and
  \<^verbatim>\<open>Webhook\<close> by their JSON names.  The recursion of the reader is bounded by the length of
  the text.
\<close>

definition is_ws :: "char \<Rightarrow> bool" where
  "is_ws c = (c = CHR '' '' \<or> c = CHR 0x09 \<or> c = CHR 0x0A \<or> c = CHR 0x0D)"

definition skip_ws :: "string \<Rightarrow> string" where
  "skip_ws cs = dropWhile is_ws cs"

definition is_digit :: "char \<Rightarrow> bool" where
  "is_digit c = (48 \<le> (of_char c :: nat) \<and> (of_char c :: nat) \<le> 57)"

definition unescape :: "char \<Rightarrow> char option" where
  "unescape e =
     (if e = CHR 0x22 then Some (CHR 0x22)
      else if e = CHR 0x5C then Some (CHR 0x5C)
      else if e = CHR ''/'' then Some (CHR ''/'')
      else if e = CHR ''b'' then Some (CHR 0x08)
      else if e = CHR ''f'' then Some (CHR 0x0C)
      else if e = CHR ''n'' then Some (CHR 0x0A)
      else if e = CHR ''r'' then Some (CHR 0x0D)
      else if e = CHR ''t'' then Some (CHR 0x09)
      else None)"

fun read_chars :: "string \<Rightarrow> (string \<times> string) option" where
  "read_chars [] = None"
| "read_chars (c # cs) =
     (if c = CHR 0x22 then Some ([], cs)
      else if c = CHR 0x5C then
        (case cs of
           [] \<Rightarrow> None
         | e # cs' \<Rightarrow>
             (case unescape e of
                None \<Rightarrow> None
              | Some d \<Rightarrow> map_option (\<lambda>(s, r). (d # s, r)) (read_chars cs')))
      else if (of_char c :: nat) < 32 then None
      else map_option (\<lambda>(s, r). (c # s, r)) (read_chars cs))"

fun read_digits :: "nat \<Rightarrow> nat \<Rightarrow> string \<Rightarrow> nat \<times> nat \<times> string" where
  "read_digits v k [] = (v, k, [])"
| "read_digits v k (c # cs) =
     (if is_digit c then read_digits (10 * v + (of_char c - 48)) (Suc k) cs else (v, k, c # cs))"

definition read_exponent :: "rat \<Rightarrow> string \<Rightarrow> (rat \<times> string) option" where
  "read_exponent m cs =
     (case cs of
        [] \<Rightarrow> Some (m, [])
      | c # r \<Rightarrow>
          if c = CHR ''e'' \<or> c = CHR ''E'' then
            (case r of
               [] \<Rightarrow> None
             | s # r' \<Rightarrow>
                 if s = CHR ''-'' then
                   (case read_digits 0 0 r' of
                      (e, k, r'') \<Rightarrow> if k = 0 then None else Some (m / 10 ^ e, r''))
                 else
                   (case read_digits 0 0 (if s = CHR ''+'' then r' else r) of
                      (e, k, r'') \<Rightarrow> if k = 0 then None else Some (m * 10 ^ e, r'')))
          else Some (m, cs))"

definition read_fraction :: "nat \<Rightarrow> string \<Rightarrow> (rat \<times> string) option" where
  "read_fraction v cs =
     (case cs of
        [] \<Rightarrow> Some (of_int (int v), [])
      | c # r \<Rightarrow>
          if c = CHR ''.'' then
            (case read_digits v 0 r of
               (v', k, r') \<Rightarrow> if k = 0 then None else read_exponent (of_int (int v') / 10 ^ k) r')
          else read_exponent (of_int (int v)) cs)"

definition read_unsigned :: "string \<Rightarrow> (rat \<times> string) option" where
  "read_unsigned cs =
     (case read_digits 0 0 cs of
        (v, k, r) \<Rightarrow>
          if k = 0 \<or> (1 < k \<and> hd cs = CHR ''0'') then None else read_fraction v r)"

definition read_number :: "string \<Rightarrow> (rat \<times> string) option" where
  "read_number cs =
     (case cs of
        [] \<Rightarrow> None
      | c # r \<Rightarrow>
          if c = CHR ''-'' then map_option (\<lambda>(q, r'). (- q, r')) (read_unsigned r)
          else read_unsigned cs)"

fun read_value :: "nat \<Rightarrow> string \<Rightarrow> (json \<times> string) option"
  and read_elements :: "nat \<Rightarrow> string \<Rightarrow> json list \<Rightarrow> (json \<times> string) option"
  and read_members :: "nat \<Rightarrow> string \<Rightarrow> (string \<times> json) list \<Rightarrow> (json \<times> string) option"
where
  "read_value 0 cs = None"
| "read_value (Suc n) cs =
     (case skip_ws cs of
        [] \<Rightarrow> None
      | c # r \<Rightarrow>
          if c = CHR ''{'' then
            (case skip_ws r of
               [] \<Rightarrow> None
             | d # r' \<Rightarrow> if d = CHR ''}'' then Some (JSON_object [], r') else read_members n r [])
          else if c = CHR ''['' then
            (case skip_ws r of
               [] \<Rightarrow> None
             | d # r' \<Rightarrow> if d = CHR '']'' then Some (JSON_array [], r') else read_elements n r [])
          else if c = CHR 0x22 then map_option (\<lambda>(s, r'). (JSON_string s, r')) (read_chars r)
          else if take 4 (c # r) = ''null'' then Some (JSON_null, drop 3 r)
          else if take 4 (c # r) = ''true'' then Some (JSON_bool True, drop 3 r)
          else if take 5 (c # r) = ''false'' then Some (JSON_bool False, drop 4 r)
          else map_option (\<lambda>(q, r'). (JSON_float64 q, r')) (read_number (c # r)))"
| "read_elements 0 cs acc = None"
| "read_elements (Suc n) cs acc =
     (case read_value n cs of
        None \<Rightarrow> None
      | Some (v, r) \<Rightarrow>
          (case skip_ws r of
             [] \<Rightarrow> None
           | c # r' \<Rightarrow>
               if c = CHR '','' then read_elements n r' (acc @ [v])
               else if c = CHR '']'' then Some (JSON_array (acc @ [v]), r')
               else None))"
| "read_members 0 cs acc = None"
| "read_members (Suc n) cs acc =
     (case skip_ws cs of
        [] \<Rightarrow> None
      | q # r0 \<Rightarrow>
          if q \<noteq> CHR 0x22 then None
          else
            (case read_chars r0 of
               None \<Rightarrow> None
             | Some (k, r1) \<Rightarrow>
                 (case skip_ws r1 of
                    [] \<Rightarrow> None
                  | c # r2 \<Rightarrow>
                      if c \<noteq> CHR '':'' then None
                      else
                        (case read_value n r2 of
                           None \<Rightarrow> None
                         | Some (v, r3) \<Rightarrow>
                             (case skip_ws r3 of
                                [] \<Rightarrow> None
                              | d # r4 \<Rightarrow>
                                  if d = CHR '','' then read_members n r4 (acc @ [(k, v)])
                                  else if d = CHR ''}'' then Some (JSON_object (acc @ [(k, v)]), r4)
                                  else None)))))"

definition json_read :: "string \<Rightarrow> json option" where
  "json_read s =
     (case read_value (Suc (length s)) s of
        None \<Rightarrow> None
      | Some (v, r) \<Rightarrow> if skip_ws r = [] then Some v else None)"

text \<open>
  Into a \<^verbatim>\<open>map[string]interface{}\<close>: an object fills the map (a repeated name keeps its
  last value), \<^verbatim>\<open>null\<close> leaves the nil map, any other value is a type error, and a
  text that is not JSON is a syntax error.
\<close>

definition read_claims :: "string \<Rightarrow> error + claims" where
  "read_claims s =
     (case json_read s of
        None \<Rightarrow> Inl json_SyntaxError
      | Some JSON_null \<Rightarrow> Inr Map.empty
      | Some (JSON_object kvs) \<Rightarrow> Inr (map_of (rev kvs))
      | Some _ \<Rightarrow> Inl json_UnmarshalTypeError)"

text \<open>
  Into a struct: each member whose name is the JSON name of a field is stored in the
  field, \<^verbatim>\<open>null\<close> leaves the field as it is, other members are skipped, and a value of the
  wrong kind is a type error.
\<close>

definition to_string :: "json \<Rightarrow> string \<Rightarrow> string option" where
  "to_string v old = (case v of JSON_string s \<Rightarrow> Some s | JSON_null \<Rightarrow> Some old | _ \<Rightarrow> None)"

definition to_int :: "json \<Rightarrow> int \<Rightarrow> int option" where
  "to_int v old =
     (case v of
        JSON_float64 q \<Rightarrow> if of_int \<lfloor>q\<rfloor> = q then Some \<lfloor>q\<rfloor> else None
      | JSON_null \<Rightarrow> Some old
      | _ \<Rightarrow> None)"

fun Error_fields :: "(string \<times> json) list \<Rightarrow> Error \<Rightarrow> Error option" where
  "Error_fields [] e = Some e"
| "Error_fields ((k, v) # kvs) e =
     (case (if k = ''key'' then map_option (\<lambda>s. e\<lparr>Error_Key := s\<rparr>) (to_string v (Error_Key e))
            else if k = ''path'' then map_option (\<lambda>s. e\<lparr>Error_Path := s\<rparr>) (to_string v (Error_Path e))
            else if k = ''message'' then map_option (\<lambda>s. e\<lparr>Error_Message := s\<rparr>) (to_string v (Error_Message e))
            else Some e) of
        None \<Rightarrow> None
      | Some e' \<Rightarrow> Error_fields kvs e')"

definition to_Error :: "json \<Rightarrow> Error option" where
  "to_Error v =
     (case v of
        JSON_object kvs \<Rightarrow> Error_fields kvs \<lparr>Error_Key = [], Error_Path = [], Error_Message = []\<rparr>
      | JSON_null \<Rightarrow> Some \<lparr>Error_Key = [], Error_Path = [], Error_Message = []\<rparr>
      | _ \<Rightarrow> None)"

definition BadRequest_field :: "string \<Rightarrow> json \<Rightarrow> BadRequest \<Rightarrow> BadRequest option" where
  "BadRequest_field k v b =
     (if k = ''name'' then map_option (\<lambda>s. b\<lparr>Name := s\<rparr>) (to_string v (Name b))
      else if k = ''message'' then map_option (\<lambda>s. b\<lparr>Message := s\<rparr>) (to_string v (Message b))
      else if k = ''error'' then
        map_option (\<lambda>s. b\<lparr>BadRequest_Error := s\<rparr>) (to_string v (BadRequest_Error b))
      else if k = ''error_description'' then
        map_option (\<lambda>s. b\<lparr>ErrorDescription := s\<rparr>) (to_string v (ErrorDescription b))
      else if k = ''errors'' then
        (case v of
           JSON_array xs \<Rightarrow> map_option (\<lambda>es. b\<lparr>Errors := Some es\<rparr>) (those (map to_Error xs))
         | JSON_null \<Rightarrow> Some (b\<lparr>Errors := None\<rparr>)
         | _ \<Rightarrow> None)
      else Some b)"

fun Token_fields :: "(string \<times> json) list \<Rightarrow> Token \<Rightarrow> Token option" where
  "Token_fields [] t = Some t"
| "Token_fields ((k, v) # kvs) t =
     (case (if k = ''access_token'' then
              map_option (\<lambda>s. t\<lparr>AccessToken := s\<rparr>) (to_string v (AccessToken t))
            else if k = ''token_type'' then
              map_option (\<lambda>s. t\<lparr>TokenType := s\<rparr>) (to_string v (TokenType t))
            else if k = ''expires_in'' then
              map_option (\<lambda>n. t\<lparr>ExpiresIn := n\<rparr>) (to_int v (ExpiresIn t))
            else if k = ''scope'' then
              map_option (\<lambda>s. t\<lparr>Scope := s\<rparr>) (to_string v (Scope t))
            else map_option (\<lambda>b. t\<lparr>Token_BadRequest := b\<rparr>)
                   (BadRequest_field k v (Token_BadRequest t))) of
        None \<Rightarrow> None
      | Some t' \<Rightarrow> Token_fields kvs t')"

definition read_Token :: "string \<Rightarrow> error + Token" where
  "read_Token s =
     (case json_read s of
        None \<Rightarrow> Inl json_SyntaxError
      | Some JSON_null \<Rightarrow> Inr Token_zero
      | Some (JSON_object kvs) \<Rightarrow>
          (case Token_fields kvs Token_zero of
             None \<Rightarrow> Inl json_UnmarshalTypeError
           | Some t \<Rightarrow> Inr t)
      | Some _ \<Rightarrow> Inl json_UnmarshalTypeError)"

text \<open>
  For a \<^verbatim>\<open>Webhook\<close> the reader fills the text fields and the embedded \<^verbatim>\<open>BadRequest\<close>; the
  members \<^verbatim>\<open>parametros\<close>, \<^verbatim>\<open>paginacao\<close> and \<^verbatim>\<open>webhooks\<close> are skipped.  A text that is not
  JSON leaves the receiver as it was.
\<close>

fun Webhook_fields :: "(string \<times> json) list \<Rightarrow> Webhook \<Rightarrow> Webhook option" where
  "Webhook_fields [] w = Some w"
| "Webhook_fields ((k, v) # kvs) w =
     (case (if k = ''webhookUrl'' then
              map_option (\<lambda>s. w\<lparr>WebhookURL := s\<rparr>) (to_string v (WebhookURL w))
            else if k = ''chave'' then
              map_option (\<lambda>s. w\<lparr>Chave := s\<rparr>) (to_string v (Chave w))
            else if k = ''criacao'' then
              map_option (\<lambda>s. w\<lparr>Criacao := s\<rparr>) (to_string v (Criacao w))
            else map_option (\<lambda>b. w\<lparr>Webhook_BadRequest := b\<rparr>)
                   (BadRequest_field k v (Webhook_BadRequest w))) of
        None \<Rightarrow> None
      | Some w' \<Rightarrow> Webhook_fields kvs w')"

definition read_Webhook :: "string \<Rightarrow> Webhook \<Rightarrow> error option \<times> Webhook" where
  "read_Webhook s w =
     (case json_read s of
        None \<Rightarrow> (Some json_SyntaxError, w)
      | Some JSON_null \<Rightarrow> (None, w)
      | Some (JSON_object kvs) \<Rightarrow>
          (case Webhook_fields kvs w of
             None \<Rightarrow> (Some json_UnmarshalTypeError, w)
           | Some w' \<Rightarrow> (None, w'))
      | Some _ \<Rightarrow> (Some json_UnmarshalTypeError, w))"

text \<open>
  The example worlds: the clock stands at 1700000000.25 seconds, a conversion out of
  range gives the smallest \<^verbatim>\<open>int64\<close>, every file exists and
  loads, every URL and request is well formed, and the server answers a \<^verbatim>\<open>POST\<close> with
  the response \<open>post\<close> and any other request with the response \<open>other\<close>.  In
  \<open>example_world\<close> the token endpoint answers with status 200 and a token whose payload is
  \<^verbatim>\<open>{"exp":1700000031}\<close>, and a deletion is answered with status 204 and an empty body.
\<close>

definition world_answering :: "http_Response \<Rightarrow> http_Response \<Rightarrow> world" where
  "world_answering post other =
     \<lparr>clock_sec = 1700000000,
      clock_nsec = 250000000,
      int64_out_of_range = (\<lambda>x. - 9223372036854775808),
      os_Stat = (\<lambda>name. Stat_ok),
      tls_LoadX509KeyPair = (\<lambda>certFile keyFile. Inr (tls_Certificate certFile)),
      url_JoinPath = (\<lambda>base elems. Inr (base @ concat (map (\<lambda>e. CHR ''/'' # e) elems))),
      http_NewRequest = (\<lambda>method url. None),
      client_Do = (\<lambda>client req. if Method req = ''POST'' then Inr post else Inr other),
      json_Unmarshal_claims = read_claims,
      json_Unmarshal_Token = read_Token,
      json_Unmarshal_Webhook = read_Webhook\<rparr>"

definition jwt_with :: "string \<Rightarrow> string" where
  "jwt_with payload =
     ''eyJhbGciOiJSUzI1NiJ9'' @ ''.'' @ RawURLEncoding_EncodeToString payload @ ''.'' @ ''c2ln''"

definition example_jwt :: string where
  "example_jwt = ''eyJhbGciOiJSUzI1NiJ9.eyJleHAiOjE3MDAwMDAwMzF9.c2ln''"

definition token_body :: "string \<Rightarrow> string" where
  "token_body v =
     ''{\"access_token\":\"'' @ v @ ''\",\"token_type\":\"Bearer\",\"expires_in\":3600}''"

definition token_response :: "string \<Rightarrow> http_Response" where
  "token_response v = \<lparr>StatusCode = 200, Response_Body = Inr (token_body v)\<rparr>"

definition no_content :: http_Response where
  "no_content = \<lparr>StatusCode = 204, Response_Body = Inr []\<rparr>"

text \<open>
  A refusal of the token endpoint (the body is the provider's error object), an answer
  that is not JSON, a token without an \<^verbatim>\<open>exp\<close> claim (its payload is
  \<^verbatim>\<open>{"sub":"efi"}\<close>), and a token whose \<^verbatim>\<open>exp\<close> is a text (its payload is
  \<^verbatim>\<open>{"exp":"1700000031"}\<close>).
\<close>

definition invalid_client_response :: http_Response where
  "invalid_client_response =
     \<lparr>StatusCode = 400, Response_Body = Inr ''{\"error\":\"invalid_client\"}''\<rparr>"

definition bad_gateway_response :: http_Response where
  "bad_gateway_response = \<lparr>StatusCode = 502, Response_Body = Inr ''<html>''\<rparr>"

definition example_jwt_no_exp :: string where
  "example_jwt_no_exp = ''eyJhbGciOiJSUzI1NiJ9.eyJzdWIiOiJlZmkifQ.c2ln''"

definition example_jwt_text_exp :: string where
  "example_jwt_text_exp = ''eyJhbGciOiJSUzI1NiJ9.eyJleHAiOiIxNzAwMDAwMDMxIn0.c2ln''"

text \<open>
  Token values with a space in them: one whose own claims are fresh but whose second
  field after the token type is \<^verbatim>\<open>x\<close>; one with four dot-separated segments whose
  second field is the fresh \<open>example_jwt\<close>; and one whose own payload is
  \<^verbatim>\<open>{"sub":"efi"}\<close> but whose second field is \<^verbatim>\<open>a\<close>.  And a token whose payload is
  \<^verbatim>\<open>{"exp":9223372036854774784}\<close>, an expiry that is a \<^verbatim>\<open>float64\<close> and fits \<^verbatim>\<open>int64\<close>.
\<close>

definition spaced_fresh_jwt :: string where
  "spaced_fresh_jwt = ''x eyJhbGciOiJSUzI1NiJ9.eyJleHAiOjE3MDAwMDAwMzF9.c2ln''"

definition spaced_four_segments :: string where
  "spaced_four_segments = ''eyJhbGciOiJSUzI1NiJ9.eyJleHAiOjE3MDAwMDAwMzF9.c2ln x.y''"

definition spaced_no_exp :: string where
  "spaced_no_exp = ''a b.eyJzdWIiOiJlZmkifQ.c''"

definition far_future_jwt :: string where
  "far_future_jwt = ''eyJhbGciOiJSUzI1NiJ9.eyJleHAiOjkyMjMzNzIwMzY4NTQ3NzQ3ODR9.c2ln''"

text \<open>A body that is JSON and is not an object.\<close>

definition array_response :: http_Response where
  "array_response = \<lparr>StatusCode = 400, Response_Body = Inr ''[1]''\<rparr>"

definition example_world :: world where
  "example_world = world_answering (token_response example_jwt) no_content"

definition example_Credentials :: Credentials where
  "example_Credentials =
     \<lparr>ClientID = ''Client_Id_1'', ClientSecret = ''Client_Secret_1'', Timeout = 10,
      Sandbox = True, CA = ''cert.pem'', Key = ''key.pem''\<rparr>"

text \<open>The outside calls of a token exchange in the example worlds.\<close>

definition example_calls :: "io list" where
  "example_calls =
     [io_LoadX509KeyPair ''cert.pem'' ''key.pem'',
      io_Do (new_http_Client example_Credentials (tls_Certificate ''cert.pem''))
        (token_Request example_Credentials ''https://pix-h.api.efipay.com.br/oauth/token'')]"

definition example_Webhook :: Webhook where
  "example_Webhook =
     \<lparr>WebhookURL = ''https://example.com/pix'', Chave = ''chave-1'', SkipMTLS = False,
      Criacao = [], Webhook_Parametros = None, Webhook_Paginacao = None,
      Webhook_Webhooks = None, Webhook_BadRequest = BadRequest_zero\<rparr>"

text \<open>
  The package variables after a successful \<^verbatim>\<open>NewClient\<close>, with a cached token, and the
  token the reader makes of \<open>token_response v\<close>.
\<close>

definition configured :: "Token \<Rightarrow> globals" where
  "configured t =
     \<lparr>Client = Some example_Credentials, EFI_BASE_URL = EFI_STAGING_URL, Authorization = t\<rparr>"

definition Bearer :: "string \<Rightarrow> Token" where
  "Bearer v = Token_zero\<lparr>AccessToken := v, TokenType := ''Bearer'', ExpiresIn := 3600\<rparr>"

section \<open>Properties of the libraries\<close>

lemma strings_Split_not_Nil: "strings_Split s sep \<noteq> []"
  by (induction s) (auto split: list.splits)

lemma strings_Split_no_sep: "sep \<notin> set s \<Longrightarrow> strings_Split s sep = [s]"
  by (induction s) auto

lemma strings_Split_append:
  "sep \<notin> set h \<Longrightarrow> strings_Split (h @ sep # r) sep = h # strings_Split r sep"
  by (induction h) auto

lemma length_strings_Split:
  "length (strings_Split s sep) = Suc (length (filter (\<lambda>c. c = sep) s))"
  by (induction s) (auto split: list.splits simp: strings_Split_not_Nil)

lemma distinct_encodeURL: "distinct encodeURL"
  by (simp add: encodeURL_def)

lemma length_encodeURL: "length encodeURL = 64"
  by (simp add: encodeURL_def)

lemma decodeMap_encodeURL: "v < 64 \<Longrightarrow> decodeMap (encodeURL ! v) = Some v"
  unfolding decodeMap_def
  using map_of_zip_nth[of encodeURL "[0..<64]" v]
  by (simp add: distinct_encodeURL length_encodeURL)

lemma those_decodeMap:
  "\<forall>v \<in> set q. v < 64 \<Longrightarrow> those (map decodeMap (map (\<lambda>v. encodeURL ! v) q)) = Some q"
  by (induction q) (simp_all add: decodeMap_encodeURL)

lemma encode_quanta_lt: "\<forall>v \<in> set (encode_quanta src). v < 64"
  by (induction src rule: encode_quanta.induct) (simp_all add: Let_def)

lemma recompose24:
  fixes n :: nat
  assumes "n < 16777216"
  shows "(n div 262144 mod 64) * 262144 + (n div 4096 mod 64) * 4096 + (n div 64 mod 64) * 64 + n mod 64 = n"
proof -
  have a: "n div 4096 = n div 64 div 64" "n div 262144 = n div 64 div 64 div 64"
    by (simp_all add: div_mult2_eq)
  have b: "n div 262144 mod 64 = n div 262144"
    using assms by (simp add: less_mult_imp_div_less)
  show ?thesis
    unfolding b unfolding a
    using div_mult_mod_eq[of n 64] div_mult_mod_eq[of "n div 64" 64] div_mult_mod_eq[of "n div 64 div 64" 64]
    by linarith
qed

lemma bytes_of_val:
  fixes a b c :: nat
  assumes "a < 256" "b < 256" "c < 256"
  shows "(a * 65536 + b * 256 + c) div 65536 mod 256 = a"
    "(a * 65536 + b * 256 + c) div 256 mod 256 = b"
    "(a * 65536 + b * 256 + c) mod 256 = c"
proof -
  have e: "a * 65536 + b * 256 + c = (a * 256 + b) * 256 + c"
    by simp
  have d: "((a * 256 + b) * 256 + c) div 256 = a * 256 + b"
    using assms(3) by (simp only: div_mult_self3 div_less)
  have m: "(a * 256 + b) mod 256 = b"
    using assms(2) by (simp only: mod_mult_self3 mod_less)
  show "(a * 65536 + b * 256 + c) div 65536 mod 256 = a"
    using assms by simp
  show "(a * 65536 + b * 256 + c) div 256 mod 256 = b"
    by (simp only: e d m)
  have "((a * 256 + b) * 256 + c) mod 256 = c"
    using assms(3) by (simp only: mod_mult_self3 mod_less)
  then show "(a * 65536 + b * 256 + c) mod 256 = c"
    by (simp only: e)
qed

lemma val_lt:
  fixes a b c :: nat
  assumes "a < 256" "b < 256" "c < 256"
  shows "a * 65536 + b * 256 + c < 16777216"
  using assms by linarith

lemma quantum_roundtrip:
  fixes a b c :: nat
  assumes "a < 256" "b < 256" "c < 256"
  defines "val \<equiv> a * 65536 + b * 256 + c"
  defines "v \<equiv> (val div 262144 mod 64) * 262144 + (val div 4096 mod 64) * 4096 + (val div 64 mod 64) * 64 + val mod 64"
  shows "v div 65536 mod 256 = a" "v div 256 mod 256 = b" "v mod 256 = c"
proof -
  have "v = val"
    unfolding v_def using recompose24[of val] val_lt[OF assms(1-3)] by (simp only: val_def)
  then show "v div 65536 mod 256 = a" "v div 256 mod 256 = b" "v mod 256 = c"
    using bytes_of_val[OF assms(1-3)] by (simp_all only: val_def)
qed

lemma low_zero2:
  fixes a b :: nat
  shows "(a * 65536 + b * 256) mod 64 = 0"
proof -
  have "a * 65536 + b * 256 = (a * 1024 + b * 4) * 64" by simp
  then show ?thesis by (simp only: mod_mult_self2_is_0)
qed

lemma low_zero1:
  fixes a :: nat
  shows "(a * 65536) mod 64 = 0" "(a * 65536) div 64 mod 64 = 0"
proof -
  have e: "a * 65536 = (a * 1024) * 64" by simp
  show "(a * 65536) mod 64 = 0" by (simp only: e mod_mult_self2_is_0)
  have "(a * 1024) * 64 div 64 = a * 1024" by (simp only: nonzero_mult_div_cancel_right)
  moreover have "(a * 1024) mod 64 = 0"
  proof -
    have "a * 1024 = (a * 16) * 64" by simp
    then show ?thesis by (simp only: mod_mult_self2_is_0)
  qed
  ultimately show "(a * 65536) div 64 mod 64 = 0" by (simp only: e)
qed

lemma quantum2_roundtrip:
  fixes a b :: nat
  assumes "a < 256" "b < 256"
  defines "val \<equiv> a * 65536 + b * 256"
  defines "v \<equiv> (val div 262144 mod 64) * 262144 + (val div 4096 mod 64) * 4096 + (val div 64 mod 64) * 64"
  shows "v div 65536 mod 256 = a" "v div 256 mod 256 = b"
proof -
  have lt: "val < 16777216"
    unfolding val_def using assms(1,2) by linarith
  have "val mod 64 = 0"
    unfolding val_def by (rule low_zero2)
  then have "v = val"
    unfolding v_def using recompose24[OF lt] by linarith
  moreover have "val = a * 65536 + b * 256 + 0"
    unfolding val_def by simp
  ultimately have e: "v = a * 65536 + b * 256 + 0"
    by simp
  show "v div 65536 mod 256 = a" "v div 256 mod 256 = b"
    unfolding e using bytes_of_val[OF assms(1,2), of 0] by simp_all
qed

lemma quantum1_roundtrip:
  fixes a :: nat
  assumes "a < 256"
  defines "val \<equiv> a * 65536"
  defines "v \<equiv> (val div 262144 mod 64) * 262144 + (val div 4096 mod 64) * 4096"
  shows "v div 65536 mod 256 = a"
proof -
  have lt: "val < 16777216"
    unfolding val_def using assms(1) by linarith
  have "val mod 64 = 0" "val div 64 mod 64 = 0"
    unfolding val_def by (rule low_zero1)+
  then have "v = val"
    unfolding v_def using recompose24[OF lt] by linarith
  moreover have "val = a * 65536 + 0 * 256 + 0"
    unfolding val_def by simp
  ultimately have e: "v = a * 65536 + 0 * 256 + 0"
    by simp
  show "v div 65536 mod 256 = a"
    unfolding e using bytes_of_val(1)[OF assms(1), of 0 0] by simp
qed

lemma decode_encode_quanta:
  "\<forall>b \<in> set src. b < 256 \<Longrightarrow> decode_quanta (encode_quanta src) = Inr src"
proof (induction src rule: encode_quanta.induct)
  case (1 a b c src)
  then have lt: "a < 256" "b < 256" "c < 256" and rest: "decode_quanta (encode_quanta src) = Inr src"
    by simp_all
  show ?case
    by (simp only: encode_quanta.simps decode_quanta.simps Let_def append.simps rest sum.case
        quantum_roundtrip[OF lt])
next
  case (2 a b)
  then have lt: "a < 256" "b < 256" by simp_all
  show ?case
    by (simp only: encode_quanta.simps decode_quanta.simps Let_def quantum2_roundtrip[OF lt])
next
  case (3 a)
  then have lt: "a < 256" by simp
  show ?case
    by (simp only: encode_quanta.simps decode_quanta.simps Let_def quantum1_roundtrip[OF lt])
next
  case 4
  show ?case by simp
qed

lemma encoded_in_alphabet:
  "set (RawURLEncoding_EncodeToString src) \<subseteq> set encodeURL"
  unfolding RawURLEncoding_EncodeToString_def
  using encode_quanta_lt[of "map of_char src"] by (auto simp: length_encodeURL)

lemma filter_encoded:
  "filter (\<lambda>c. c \<noteq> CHR 0x0A \<and> c \<noteq> CHR 0x0D) (RawURLEncoding_EncodeToString src)
     = RawURLEncoding_EncodeToString src"
proof -
  have "CHR 0x0A \<notin> set encodeURL" "CHR 0x0D \<notin> set encodeURL"
    by (simp_all add: encodeURL_def)
  then show ?thesis
    using encoded_in_alphabet[of src] by (intro filter_True) auto
qed

lemma encoded_no_dot: "CHR ''.'' \<notin> set (RawURLEncoding_EncodeToString src)"
proof -
  have "CHR ''.'' \<notin> set encodeURL"
    by (simp add: encodeURL_def)
  then show ?thesis
    using encoded_in_alphabet[of src] by auto
qed

lemma DecodeString_EncodeToString:
  "RawURLEncoding_DecodeString (RawURLEncoding_EncodeToString src) = Inr src"
proof -
  have b: "\<forall>b \<in> set (map of_char src :: nat list). b < 256"
    by simp
  have c: "map char_of (map of_char src :: nat list) = src"
    by (simp add: comp_def)
  have d: "those (map decodeMap (RawURLEncoding_EncodeToString src)) = Some (encode_quanta (map of_char src))"
    unfolding RawURLEncoding_EncodeToString_def by (rule those_decodeMap[OF encode_quanta_lt])
  show ?thesis
    unfolding RawURLEncoding_DecodeString_def Let_def
    by (simp only: filter_encoded d decode_encode_quanta[OF b] c option.case sum.case)
qed

section \<open>The claims decoder\<close>

lemma decodeJWT_segments:
  "length (strings_Split token (CHR ''.'')) \<noteq> 3 \<Longrightarrow>
     decodeJWT W token = Inl (errors_New ''invalid token: must have 3 parts'')"
  by (simp add: decodeJWT_def)

lemma Split_three:
  assumes "CHR ''.'' \<notin> set h" "CHR ''.'' \<notin> set p" "CHR ''.'' \<notin> set s"
  shows "strings_Split (h @ ''.'' @ p @ ''.'' @ s) (CHR ''.'') = [h, p, s]"
  using assms by (simp add: strings_Split_append strings_Split_no_sep)

lemma decodeJWT_encoded:
  assumes "CHR ''.'' \<notin> set h" "CHR ''.'' \<notin> set s"
  shows "decodeJWT W (h @ ''.'' @ RawURLEncoding_EncodeToString payload @ ''.'' @ s) =
           (case json_Unmarshal_claims W payload of
              Inl err \<Rightarrow> Inl (errors_New ''failed to decode JSON payload'')
            | Inr claims \<Rightarrow> Inr claims)"
  unfolding decodeJWT_def
  by (simp add: Split_three[OF assms(1) encoded_no_dot assms(2)] DecodeString_EncodeToString
      del: append.simps)

text \<open>
  C4.  A payload text that the JSON library reads as the object \<open>obj\<close>, encoded with
  unpadded URL-safe base64 and placed between two dot-free segments, decodes to \<open>obj\<close>;
  a token whose number of dot-separated segments is not three fails with the error
  of a malformed token.
\<close>

theorem decodeJWT_roundtrip_and_segment_count:
  "(CHR ''.'' \<notin> set h \<and> CHR ''.'' \<notin> set s \<and> json_Unmarshal_claims W payload = Inr obj \<longrightarrow>
      decodeJWT W (h @ ''.'' @ RawURLEncoding_EncodeToString payload @ ''.'' @ s) = Inr obj)
   \<and> (length (strings_Split token (CHR ''.'')) \<noteq> 3 \<longrightarrow>
        decodeJWT W token = Inl (errors_New ''invalid token: must have 3 parts''))"
  by (simp add: decodeJWT_encoded decodeJWT_segments del: append.simps)

lemmas json_simps = json_read_def skip_ws_def is_ws_def read_number_def read_unsigned_def
  read_fraction_def read_exponent_def is_digit_def unescape_def

lemma json_read_exp: "json_read ''{\"exp\": 1700000000}'' = Some (JSON_object [(''exp'', JSON_float64 1700000000)])"
  by (simp add: json_simps)

lemma encode_exp: "RawURLEncoding_EncodeToString ''{\"exp\": 1700000000}'' = ''eyJleHAiOiAxNzAwMDAwMDAwfQ''"
  by (simp add: RawURLEncoding_EncodeToString_def encodeURL_def)

theorem decodeJWT_roundtrip_and_segment_count_witness:
  "decodeJWT example_world ''eyJhbGciOiJSUzI1NiJ9.eyJleHAiOiAxNzAwMDAwMDAwfQ.c2ln''
     = Inr [''exp'' \<mapsto> JSON_float64 1700000000]
   \<and> decodeJWT example_world ''a.b'' = Inl (errors_New ''invalid token: must have 3 parts'')
   \<and> decodeJWT example_world ''a.b.c.d'' = Inl (errors_New ''invalid token: must have 3 parts'')"
  using decodeJWT_roundtrip_and_segment_count[of "''eyJhbGciOiJSUzI1NiJ9''" "''c2ln''" example_world
      "''{\"exp\": 1700000000}''" "[''exp'' \<mapsto> JSON_float64 1700000000]" "''a.b''"]
    decodeJWT_roundtrip_and_segment_count[of "''eyJhbGciOiJSUzI1NiJ9''" "''c2ln''" example_world
      "''{\"exp\": 1700000000}''" "[''exp'' \<mapsto> JSON_float64 1700000000]" "''a.b.c.d''"]
  by (simp add: encode_exp example_world_def world_answering_def read_claims_def json_read_exp)


section \<open>The freshness check\<close>

text \<open>
  The index 1 that \<^verbatim>\<open>checkToken\<close> reads is always in range: \<^verbatim>\<open>authorization()\<close> holds a
  space, so the split has at least two pieces.  The piece at index 1 is the token value
  when neither the token type nor the value holds a space; when the value holds a space
  it is the part of the value before its first space.
\<close>

lemma Split_authorization_length:
  "2 \<le> length (strings_Split (authorization st) (CHR '' ''))"
  by (simp add: length_strings_Split authorization_def)

lemma Split_authorization:
  assumes "CHR '' '' \<notin> set (TokenType (Authorization st))"
    and "CHR '' '' \<notin> set (AccessToken (Authorization st))"
  shows "strings_Split (authorization st) (CHR '' '') ! 1 = AccessToken (Authorization st)"
  using assms by (simp add: authorization_def strings_Split_append strings_Split_no_sep)

lemma Split_authorization_spaced:
  assumes "CHR '' '' \<notin> set (TokenType (Authorization st))"
    and "AccessToken (Authorization st) = a @ '' '' @ b"
    and "CHR '' '' \<notin> set a"
  shows "strings_Split (authorization st) (CHR '' '') ! 1 = a"
  using assms by (simp add: authorization_def strings_Split_append)

text \<open>Inside their ranges the operations on times are those on unbounded integers.\<close>

lemma int64_id:
  "- 9223372036854775808 \<le> x \<Longrightarrow> x \<le> 9223372036854775807 \<Longrightarrow> int64 x = x"
  by (simp add: int64_def)

lemma math_Trunc_of_int: "math_Trunc (of_int x) = x"
proof -
  have "- \<lfloor>- (of_int x :: rat)\<rfloor> = x"
    by (simp only: of_int_minus[symmetric] floor_of_int)
  then show ?thesis
    by (simp add: math_Trunc_def)
qed

lemma int64_of_float64_in_range:
  "expiry_in_range (math_Trunc e) \<Longrightarrow> int64_of_float64 W e = math_Trunc e"
  by (simp add: int64_of_float64_def expiry_in_range_def unixToInternal_def)

lemma time_Unix_in_range:
  "expiry_in_range x \<Longrightarrow> time_Unix x 0 = \<lparr>Time_sec = x + unixToInternal, Time_nsec = 0\<rparr>"
  by (simp add: time_Unix_def unixTime_def expiry_in_range_def unixToInternal_def int64_id)

lemma time_Add_Now_in_range:
  assumes "clock_in_range W"
  shows "time_Add (time_Now W) (30 * time_Second) =
     \<lparr>Time_sec = clock_sec W + unixToInternal + 30, Time_nsec = clock_nsec W\<rparr>"
proof -
  have q: "quo (30 * time_Second) 1000000000 = 30" "rem (30 * time_Second) 1000000000 = 0"
    by (simp_all add: quo_def rem_def time_Second_def)
  have n: "time_Now W = \<lparr>Time_sec = clock_sec W + unixToInternal, Time_nsec = clock_nsec W\<rparr>"
    using assms by (simp add: time_Now_def clock_in_range_def int64_id)
  have s: "addSec (clock_sec W + unixToInternal) 30 = clock_sec W + unixToInternal + 30"
    using assms by (simp add: addSec_def clock_in_range_def int64_id)
  show ?thesis
    using assms by (simp add: time_Add_def q n s clock_in_range_def)
qed

lemma nanoseconds_less:
  fixes a b n :: int
  assumes "0 \<le> n" "n < 1000000000"
  shows "a * 1000000000 + n < b * 1000000000 \<longleftrightarrow> a < b"
  using assms by arith

lemma time_After_in_range:
  assumes "clock_in_range W" and "expiry_in_range x"
  shows "time_After (time_Unix x 0) (time_Add (time_Now W) (30 * time_Second)) \<longleftrightarrow>
     (clock_sec W + 30) * 1000000000 + clock_nsec W < x * 1000000000"
proof -
  have "0 \<le> clock_nsec W" "clock_nsec W < 1000000000"
    using assms(1) by (simp_all add: clock_in_range_def)
  then have "(clock_sec W + 30) * 1000000000 + clock_nsec W < x * 1000000000
      \<longleftrightarrow> clock_sec W + 30 < x"
    by (rule nanoseconds_less)
  moreover have "time_After (time_Unix x 0) (time_Add (time_Now W) (30 * time_Second))
      \<longleftrightarrow> clock_sec W + 30 < x"
    using \<open>0 \<le> clock_nsec W\<close>
    by (auto simp: time_After_def time_Unix_in_range[OF assms(2)]
        time_Add_Now_in_range[OF assms(1)])
  ultimately show ?thesis
    by simp
qed

lemma checkToken_fresh:
  "checkToken W st = addr_Authorization \<longleftrightarrow>
     AccessToken (Authorization st) \<noteq> [] \<and>
     (\<exists>claims e. decodeJWT W (strings_Split (authorization st) (CHR '' '') ! 1) = Inr claims
        \<and> claims ''exp'' = Some (JSON_float64 e)
        \<and> time_After (time_Unix (int64_of_float64 W e) 0)
            (time_Add (time_Now W) (30 * time_Second)))"
  by (auto simp: checkToken_def Let_def split: sum.splits option.splits json.splits)

lemma checkToken_error:
  "checkToken W st = addr_new t \<longleftrightarrow>
     AccessToken (Authorization st) \<noteq> [] \<and>
     (\<exists>err. decodeJWT W (strings_Split (authorization st) (CHR '' '') ! 1) = Inl err \<and> t = Token_Error err)"
  by (auto simp: checkToken_def Let_def split: sum.splits option.splits json.splits)

lemma checkToken_exp:
  assumes "AccessToken (Authorization st) \<noteq> []"
    and "decodeJWT W (strings_Split (authorization st) (CHR '' '') ! 1) = Inr claims"
    and "claims ''exp'' = Some (JSON_float64 e)"
  shows "checkToken W st =
     (if time_After (time_Unix (int64_of_float64 W e) 0) (time_Add (time_Now W) (30 * time_Second))
      then addr_Authorization else nil_Token)"
  using assms by (simp add: checkToken_def Let_def)

lemma checkToken_exp_in_range:
  assumes "AccessToken (Authorization st) \<noteq> []"
    and "decodeJWT W (strings_Split (authorization st) (CHR '' '') ! 1) = Inr claims"
    and "claims ''exp'' = Some (JSON_float64 e)"
    and "clock_in_range W" and "expiry_in_range (math_Trunc e)"
  shows "checkToken W st =
     (if (clock_sec W + 30) * 1000000000 + clock_nsec W < math_Trunc e * 1000000000
      then addr_Authorization else nil_Token)"
  unfolding checkToken_exp[OF assms(1-3)] int64_of_float64_in_range[OF assms(5)]
    time_After_in_range[OF assms(4,5)] ..

text \<open>
  C1, as the code has it.  When neither the token type nor the token value holds a space, the clock
  is in range (nanoseconds below one second; seconds that, 30 seconds later included, fit
  the internal \<^verbatim>\<open>int64\<close> of \<^verbatim>\<open>time.Time\<close>) and every numeric \<^verbatim>\<open>exp\<close> the value decodes to
  is, truncated to whole seconds, in range (it fits \<^verbatim>\<open>int64\<close>, also with the offset of
  \<^verbatim>\<open>time.Unix\<close> added), the check answers with the address of \<^verbatim>\<open>Authorization\<close> (the token
  is fresh) exactly when the token value is not empty and decodes to claims whose \<^verbatim>\<open>exp\<close>
  is a number that, truncated to whole seconds, lies strictly after the current time plus
  30 seconds; under the same conditions an expiry 31 seconds after the current second is
  fresh and one at the current second or 29 seconds after it is not.  An empty token value
  is never fresh, whatever the clock and the token type.
\<close>

theorem checkToken_fresh_iff:
  "(CHR '' '' \<notin> set (TokenType (Authorization st))
      \<and> CHR '' '' \<notin> set (AccessToken (Authorization st))
      \<and> clock_in_range W
      \<and> (\<forall>claims e. decodeJWT W (AccessToken (Authorization st)) = Inr claims
             \<and> claims ''exp'' = Some (JSON_float64 e) \<longrightarrow> expiry_in_range (math_Trunc e))
    \<longrightarrow> (checkToken W st = addr_Authorization \<longleftrightarrow>
           AccessToken (Authorization st) \<noteq> [] \<and>
           (\<exists>claims e. decodeJWT W (AccessToken (Authorization st)) = Inr claims
              \<and> claims ''exp'' = Some (JSON_float64 e)
              \<and> (clock_sec W + 30) * 1000000000 + clock_nsec W < math_Trunc e * 1000000000))
       \<and> (AccessToken (Authorization st) \<noteq> []
            \<and> decodeJWT W (AccessToken (Authorization st)) = Inr claims'
            \<and> claims' ''exp'' = Some (JSON_float64 (of_int x)) \<longrightarrow>
              (x = clock_sec W + 31 \<longrightarrow> checkToken W st = addr_Authorization)
            \<and> (x = clock_sec W + 29 \<longrightarrow> checkToken W st = nil_Token)
            \<and> (x = clock_sec W \<longrightarrow> checkToken W st = nil_Token)))
   \<and> (AccessToken (Authorization st) = [] \<longrightarrow> checkToken W st = nil_Token)"
proof (rule conjI, rule impI, elim conjE, rule conjI)
  assume ty: "CHR '' '' \<notin> set (TokenType (Authorization st))"
    and val: "CHR '' '' \<notin> set (AccessToken (Authorization st))"
    and clock: "clock_in_range W"
    and range: "\<forall>claims e. decodeJWT W (AccessToken (Authorization st)) = Inr claims
             \<and> claims ''exp'' = Some (JSON_float64 e) \<longrightarrow> expiry_in_range (math_Trunc e)"
  have token: "strings_Split (authorization st) (CHR '' '') ! 1 = AccessToken (Authorization st)"
    using ty val by (rule Split_authorization)
  have after: "time_After (time_Unix (int64_of_float64 W e) 0)
        (time_Add (time_Now W) (30 * time_Second)) \<longleftrightarrow>
      (clock_sec W + 30) * 1000000000 + clock_nsec W < math_Trunc e * 1000000000"
    if "decodeJWT W (AccessToken (Authorization st)) = Inr claims"
      and "claims ''exp'' = Some (JSON_float64 e)" for claims e
  proof -
    have r: "expiry_in_range (math_Trunc e)"
      using range that by blast
    show ?thesis
      unfolding int64_of_float64_in_range[OF r] by (rule time_After_in_range[OF clock r])
  qed
  show "checkToken W st = addr_Authorization \<longleftrightarrow>
           AccessToken (Authorization st) \<noteq> [] \<and>
           (\<exists>claims e. decodeJWT W (AccessToken (Authorization st)) = Inr claims
              \<and> claims ''exp'' = Some (JSON_float64 e)
              \<and> (clock_sec W + 30) * 1000000000 + clock_nsec W < math_Trunc e * 1000000000)"
    unfolding checkToken_fresh token using after by blast
next
  assume ty: "CHR '' '' \<notin> set (TokenType (Authorization st))"
    and val: "CHR '' '' \<notin> set (AccessToken (Authorization st))"
    and clock: "clock_in_range W"
    and range: "\<forall>claims e. decodeJWT W (AccessToken (Authorization st)) = Inr claims
             \<and> claims ''exp'' = Some (JSON_float64 e) \<longrightarrow> expiry_in_range (math_Trunc e)"
  show "AccessToken (Authorization st) \<noteq> []
            \<and> decodeJWT W (AccessToken (Authorization st)) = Inr claims'
            \<and> claims' ''exp'' = Some (JSON_float64 (of_int x)) \<longrightarrow>
              (x = clock_sec W + 31 \<longrightarrow> checkToken W st = addr_Authorization)
            \<and> (x = clock_sec W + 29 \<longrightarrow> checkToken W st = nil_Token)
            \<and> (x = clock_sec W \<longrightarrow> checkToken W st = nil_Token)"
  proof (rule impI, elim conjE)
  assume a: "AccessToken (Authorization st) \<noteq> []"
      "decodeJWT W (AccessToken (Authorization st)) = Inr claims'"
      "claims' ''exp'' = Some (JSON_float64 (of_int x))"
  have token: "strings_Split (authorization st) (CHR '' '') ! 1 = AccessToken (Authorization st)"
    using ty val by (rule Split_authorization)
  have r: "expiry_in_range (math_Trunc (of_int x))"
    using range a by blast
  have n: "0 \<le> clock_nsec W" "clock_nsec W < 1000000000"
    using clock by (simp_all add: clock_in_range_def)
  have c: "checkToken W st =
     (if (clock_sec W + 30) * 1000000000 + clock_nsec W < x * 1000000000
      then addr_Authorization else nil_Token)"
    using checkToken_exp_in_range[OF a(1) a(2)[folded token] a(3) clock r]
    by (simp only: math_Trunc_of_int)
  show "(x = clock_sec W + 31 \<longrightarrow> checkToken W st = addr_Authorization)
      \<and> (x = clock_sec W + 29 \<longrightarrow> checkToken W st = nil_Token)
      \<and> (x = clock_sec W \<longrightarrow> checkToken W st = nil_Token)"
    unfolding c nanoseconds_less[OF n] by simp
  qed
next
  show "AccessToken (Authorization st) = [] \<longrightarrow> checkToken W st = nil_Token"
    by (simp add: checkToken_def)
qed

section \<open>The authenticator\<close>

lemma OAuth_not_configured:
  "Client st = None \<Longrightarrow> OAuth W st = (Token_Error (errors_New ''client not defined''), st, [])"
  by (simp add: OAuth_def)

lemma OAuth_fresh:
  "Client st = Some c \<Longrightarrow> checkToken W st = addr_Authorization \<Longrightarrow>
     OAuth W st = (Authorization st, st, [])"
  by (simp add: OAuth_def)

lemma OAuth_decode_error:
  "Client st = Some c \<Longrightarrow> checkToken W st = addr_new t \<Longrightarrow> OAuth W st = (t, st, [])"
  by (simp add: OAuth_def)

text \<open>The exchange itself: what \<^verbatim>\<open>OAuth\<close> does once the check has answered \<^verbatim>\<open>nil\<close>.\<close>

lemma OAuth_exchange:
  assumes "Client st = Some c" "checkToken W st = nil_Token"
  shows "OAuth W st =
     (case tls_LoadX509KeyPair W (CA c) (Key c) of
        Inl err \<Rightarrow>
          (Token_Error (fmt_Errorf ''failed to load certificates: '' err), st,
           [io_LoadX509KeyPair (CA c) (Key c)])
      | Inr cert \<Rightarrow>
          (case url_JoinPath W (EFI_BASE_URL st) [''oauth'', ''token''] of
             Inl err \<Rightarrow>
               (Token_Error (fmt_Errorf ''failed to construct URL: '' err), st,
                [io_LoadX509KeyPair (CA c) (Key c)])
           | Inr path \<Rightarrow>
               (case http_NewRequest W ''POST'' path of
                  Some err \<Rightarrow> (Token_Error err, st, [io_LoadX509KeyPair (CA c) (Key c)])
                | None \<Rightarrow>
                    (case client_Do W (new_http_Client c cert) (token_Request c path) of
                       Inl err \<Rightarrow>
                         (Token_Error err, st,
                          [io_LoadX509KeyPair (CA c) (Key c),
                           io_Do (new_http_Client c cert) (token_Request c path)])
                     | Inr res \<Rightarrow>
                         (case Response_Body res of
                            Inl err \<Rightarrow>
                              (Token_Error err, st,
                               [io_LoadX509KeyPair (CA c) (Key c),
                                io_Do (new_http_Client c cert) (token_Request c path)])
                          | Inr body \<Rightarrow>
                              (case json_Unmarshal_Token W body of
                                 Inl err \<Rightarrow>
                                   (Token_Error err, st,
                                    [io_LoadX509KeyPair (CA c) (Key c),
                                     io_Do (new_http_Client c cert) (token_Request c path)])
                               | Inr token \<Rightarrow>
                                   if StatusCode res \<noteq> 200
                                   then (Token_Error (errors_New (''bad request: '' @ body)), st,
                                         [io_LoadX509KeyPair (CA c) (Key c),
                                          io_Do (new_http_Client c cert) (token_Request c path)])
                                   else (token, st\<lparr>Authorization := token\<rparr>,
                                         [io_LoadX509KeyPair (CA c) (Key c),
                                          io_Do (new_http_Client c cert) (token_Request c path)])))))))"
  using assms by (simp add: OAuth_def Let_def split: sum.splits option.splits)

lemma OAuth_state:
  "OAuth W st = (t, st', calls) \<Longrightarrow>
     st' = st \<or> (Client st \<noteq> None \<and> st' = st\<lparr>Authorization := t\<rparr>)"
proof (cases "Client st")
  case None
  then show "OAuth W st = (t, st', calls) \<Longrightarrow> ?thesis"
    by (simp add: OAuth_not_configured)
next
  case (Some c)
  show "OAuth W st = (t, st', calls) \<Longrightarrow> ?thesis"
  proof (cases "checkToken W st")
    case nil_Token
    assume "OAuth W st = (t, st', calls)"
    then show ?thesis
      unfolding OAuth_exchange[OF Some nil_Token]
      by (auto simp: Some split: sum.splits option.splits if_splits)
  next
    case addr_Authorization
    assume "OAuth W st = (t, st', calls)"
    then show ?thesis
      by (simp add: OAuth_fresh[OF Some addr_Authorization])
  next
    case (addr_new x)
    assume "OAuth W st = (t, st', calls)"
    then show ?thesis
      by (simp add: OAuth_decode_error[OF Some addr_new])
  qed
qed

lemma NewClient_state:
  "NewClient W c st = (r, st') \<Longrightarrow>
     (r \<noteq> None \<and> st' = st) \<or>
     (r = None \<and> st' = st\<lparr>EFI_BASE_URL := (if Sandbox c then EFI_STAGING_URL else EFI_PRODUCTION_URL),
                       Client := Some c\<rparr>)"
  by (auto simp: NewClient_def split: option.splits)

lemma reachable_configured:
  "reachable st \<Longrightarrow> Authorization st \<noteq> Token_zero \<Longrightarrow> Client st \<noteq> None"
proof (induction rule: reachable.induct)
  case reachable_init
  then show ?case by (simp add: globals_init_def)
next
  case (reachable_NewClient st W c r st')
  then show ?case
    using NewClient_state[of W c st r st'] by auto
next
  case (reachable_OAuth st W t st' calls)
  then show ?case
    using OAuth_state[of W st t st' calls] by auto
qed

lemma reachable_cached:
  assumes "reachable st" "AccessToken (Authorization st) \<noteq> []"
  shows "\<exists>c. Client st = Some c"
proof -
  have "Authorization st \<noteq> Token_zero"
    using assms(2) by (auto simp: Token_zero_def)
  then show ?thesis
    using reachable_configured[OF assms(1)] by auto
qed


text \<open>
  C3.  A call of \<^verbatim>\<open>OAuth\<close> replaces the cached token exactly when the exchange runs
  (a client is configured and the check answered \<^verbatim>\<open>nil\<close>) and every step of it succeeds
  with HTTP status 200; the new value is the token returned.  In every other case (no
  client, a fresh token, a decode error, a certificate that does not load, a URL or
  request that cannot be built, a network error, a body that cannot be read or parsed, a
  status other than 200) the package variables are exactly as before.
\<close>

theorem OAuth_cache_replaced_only_on_200:
  "OAuth W st = (t, st', calls) \<longrightarrow>
     (if \<exists>c cert path res body.
           Client st = Some c \<and> checkToken W st = nil_Token
           \<and> tls_LoadX509KeyPair W (CA c) (Key c) = Inr cert
           \<and> url_JoinPath W (EFI_BASE_URL st) [''oauth'', ''token''] = Inr path
           \<and> http_NewRequest W ''POST'' path = None
           \<and> client_Do W (new_http_Client c cert) (token_Request c path) = Inr res
           \<and> Response_Body res = Inr body
           \<and> json_Unmarshal_Token W body = Inr t
           \<and> StatusCode res = 200
      then st' = st\<lparr>Authorization := t\<rparr>
      else st' = st)"
proof (cases "Client st")
  case None
  then show ?thesis
    by (auto simp: OAuth_not_configured)
next
  case (Some c)
  show ?thesis
  proof (cases "checkToken W st")
    case nil_Token
    show ?thesis
      unfolding OAuth_exchange[OF Some nil_Token]
      by (auto simp: Some nil_Token split: sum.splits option.splits if_splits)
  next
    case addr_Authorization
    then show ?thesis
      by (auto simp: OAuth_fresh[OF Some addr_Authorization])
  next
    case (addr_new x)
    then show ?thesis
      by (auto simp: OAuth_decode_error[OF Some addr_new])
  qed
qed

text \<open>
  C5, as the code has it.  In every reachable state whose token type and token value hold no space
  and whose token value is not empty and decodes to claims with a numeric \<^verbatim>\<open>exp\<close> that,
  truncated to whole seconds, is in range and lies strictly after the current time plus
  30 seconds, the clock being in range, \<^verbatim>\<open>OAuth\<close> returns the cached token, leaves the
  package variables alone and makes no outside call; the authorization value is the token
  type, one space and the token value.
\<close>

theorem OAuth_fresh_returns_cached_token:
  "reachable st
     \<and> CHR '' '' \<notin> set (TokenType (Authorization st))
     \<and> CHR '' '' \<notin> set (AccessToken (Authorization st))
     \<and> clock_in_range W
     \<and> AccessToken (Authorization st) \<noteq> []
     \<and> decodeJWT W (AccessToken (Authorization st)) = Inr claims
     \<and> claims ''exp'' = Some (JSON_float64 e)
     \<and> expiry_in_range (math_Trunc e)
     \<and> (clock_sec W + 30) * 1000000000 + clock_nsec W < math_Trunc e * 1000000000 \<longrightarrow>
       OAuth W st = (Authorization st, st, [])
       \<and> authorization st = TokenType (Authorization st) @ '' '' @ AccessToken (Authorization st)"
proof (intro impI, elim conjE)
  assume r: "reachable st"
    and ty: "CHR '' '' \<notin> set (TokenType (Authorization st))"
    and val: "CHR '' '' \<notin> set (AccessToken (Authorization st))"
    and clock: "clock_in_range W"
    and a: "AccessToken (Authorization st) \<noteq> []"
      "decodeJWT W (AccessToken (Authorization st)) = Inr claims"
      "claims ''exp'' = Some (JSON_float64 e)"
    and range: "expiry_in_range (math_Trunc e)"
    and after: "(clock_sec W + 30) * 1000000000 + clock_nsec W < math_Trunc e * 1000000000"
  obtain c where c: "Client st = Some c"
    using reachable_cached[OF r a(1)] by blast
  have token: "strings_Split (authorization st) (CHR '' '') ! 1 = AccessToken (Authorization st)"
    using ty val by (rule Split_authorization)
  have "checkToken W st = addr_Authorization"
    using checkToken_exp_in_range[OF a(1) a(2)[folded token] a(3) clock range] after by simp
  then have "OAuth W st = (Authorization st, st, [])"
    by (rule OAuth_fresh[OF c])
  then show "OAuth W st = (Authorization st, st, [])
       \<and> authorization st = TokenType (Authorization st) @ '' '' @ AccessToken (Authorization st)"
    by (simp add: authorization_def)
qed

text \<open>
  C6, as the code has it.  In every reachable state whose token type and token value hold no space
  and whose token value is not empty and does not decode, the check returns a new
  \<^verbatim>\<open>Token\<close> that holds the decode error, and \<^verbatim>\<open>OAuth\<close> hands that error to its caller
  without any outside call and without touching the cache.  The decode error is the one of
  the segment count, of the base64 text or of the JSON payload.
\<close>

theorem checkToken_surfaces_decode_failure:
  "(reachable st
      \<and> CHR '' '' \<notin> set (TokenType (Authorization st))
      \<and> CHR '' '' \<notin> set (AccessToken (Authorization st))
      \<and> AccessToken (Authorization st) \<noteq> []
      \<and> decodeJWT W (AccessToken (Authorization st)) = Inl err \<longrightarrow>
        checkToken W st = addr_new (Token_Error err)
        \<and> Error (Token_Error err) = Some err
        \<and> OAuth W st = (Token_Error err, st, []))
   \<and> (length (strings_Split token (CHR ''.'')) \<noteq> 3 \<longrightarrow>
        decodeJWT W token = Inl (errors_New ''invalid token: must have 3 parts''))
   \<and> (length (strings_Split token (CHR ''.'')) = 3
        \<and> RawURLEncoding_DecodeString (strings_Split token (CHR ''.'') ! 1) = Inl e1 \<longrightarrow>
        decodeJWT W token = Inl (errors_New ''failed to decode token payload''))
   \<and> (length (strings_Split token (CHR ''.'')) = 3
        \<and> RawURLEncoding_DecodeString (strings_Split token (CHR ''.'') ! 1) = Inr payload
        \<and> json_Unmarshal_claims W payload = Inl e2 \<longrightarrow>
        decodeJWT W token = Inl (errors_New ''failed to decode JSON payload''))"
proof (intro conjI impI)
  assume a: "reachable st
      \<and> CHR '' '' \<notin> set (TokenType (Authorization st))
      \<and> CHR '' '' \<notin> set (AccessToken (Authorization st))
      \<and> AccessToken (Authorization st) \<noteq> []
      \<and> decodeJWT W (AccessToken (Authorization st)) = Inl err"
  then obtain c where c: "Client st = Some c"
    using reachable_cached by blast
  have token: "strings_Split (authorization st) (CHR '' '') ! 1 = AccessToken (Authorization st)"
    using a Split_authorization[of st] by blast
  show t: "checkToken W st = addr_new (Token_Error err)"
    unfolding checkToken_error token using a by simp
  show "Error (Token_Error err) = Some err"
    by (simp add: Token_Error_def)
  show "OAuth W st = (Token_Error err, st, [])"
    by (rule OAuth_decode_error[OF c t])
qed (simp_all add: decodeJWT_def)

text \<open>
  C10, as the code has it.  In every reachable state whose token type and token value hold no
  space and whose token value is not empty and decodes to claims in which \<^verbatim>\<open>exp\<close> is
  missing or is not a number, the check returns \<^verbatim>\<open>nil\<close> (no error), and \<^verbatim>\<open>OAuth\<close> runs
  the token exchange: it starts by loading the certificate, and it returns the token and
  makes the outside calls it would with an empty cache.
\<close>

theorem checkToken_without_exp_is_stale:
  "reachable st
     \<and> CHR '' '' \<notin> set (TokenType (Authorization st))
     \<and> CHR '' '' \<notin> set (AccessToken (Authorization st))
     \<and> AccessToken (Authorization st) \<noteq> []
     \<and> decodeJWT W (AccessToken (Authorization st)) = Inr claims
     \<and> (\<forall>q. claims ''exp'' \<noteq> Some (JSON_float64 q)) \<longrightarrow>
       checkToken W st = nil_Token
       \<and> (\<exists>c. Client st = Some c
             \<and> (\<exists>t st' calls. OAuth W st = (t, st', io_LoadX509KeyPair (CA c) (Key c) # calls)))
       \<and> fst (OAuth W st) = fst (OAuth W (st\<lparr>Authorization := Token_zero\<rparr>))
       \<and> snd (snd (OAuth W st)) = snd (snd (OAuth W (st\<lparr>Authorization := Token_zero\<rparr>)))"
proof (intro impI)
  assume a: "reachable st
     \<and> CHR '' '' \<notin> set (TokenType (Authorization st))
     \<and> CHR '' '' \<notin> set (AccessToken (Authorization st))
     \<and> AccessToken (Authorization st) \<noteq> []
     \<and> decodeJWT W (AccessToken (Authorization st)) = Inr claims
     \<and> (\<forall>q. claims ''exp'' \<noteq> Some (JSON_float64 q))"
  then obtain c where c: "Client st = Some c"
    using reachable_cached by blast
  have token: "strings_Split (authorization st) (CHR '' '') ! 1 = AccessToken (Authorization st)"
    using a Split_authorization[of st] by blast
  let ?st0 = "st\<lparr>Authorization := Token_zero\<rparr>"
  have n: "checkToken W st = nil_Token"
    using a token by (auto simp: checkToken_def Let_def split: option.splits json.splits)
  have c0: "Client ?st0 = Some c"
    using c by simp
  have n0: "checkToken W ?st0 = nil_Token"
    by (simp add: checkToken_def Token_zero_def)
  have "\<exists>t st' calls. OAuth W st = (t, st', io_LoadX509KeyPair (CA c) (Key c) # calls)"
    unfolding OAuth_exchange[OF c n] by (simp split: sum.splits option.splits)
  moreover have "fst (OAuth W st) = fst (OAuth W ?st0)"
    unfolding OAuth_exchange[OF c n] OAuth_exchange[OF c0 n0]
    by (simp split: sum.splits option.splits)
  moreover have "snd (snd (OAuth W st)) = snd (snd (OAuth W ?st0))"
    unfolding OAuth_exchange[OF c n] OAuth_exchange[OF c0 n0]
    by (simp split: sum.splits option.splits)
  ultimately show "checkToken W st = nil_Token
       \<and> (\<exists>c. Client st = Some c
             \<and> (\<exists>t st' calls. OAuth W st = (t, st', io_LoadX509KeyPair (CA c) (Key c) # calls)))
       \<and> fst (OAuth W st) = fst (OAuth W (st\<lparr>Authorization := Token_zero\<rparr>))
       \<and> snd (snd (OAuth W st)) = snd (snd (OAuth W (st\<lparr>Authorization := Token_zero\<rparr>)))"
    using n c by simp
qed

text \<open>
  C2, as the code has it.  When the token endpoint answers with a status other than 200, \<^verbatim>\<open>OAuth\<close>
  returns a failure: when \<^verbatim>\<open>json.Unmarshal\<close> of the body into a \<^verbatim>\<open>Token\<close> succeeds the
  error is the text \<^verbatim>\<open>bad request: \<close> followed by the raw body, and when it fails (the body
  is not JSON, or it is JSON that does not fit a \<^verbatim>\<open>Token\<close>) the error is the one
  \<^verbatim>\<open>json.Unmarshal\<close> returned.
\<close>

theorem OAuth_non_200_wraps_raw_body:
  "Client st = Some c \<and> checkToken W st = nil_Token
     \<and> tls_LoadX509KeyPair W (CA c) (Key c) = Inr cert
     \<and> url_JoinPath W (EFI_BASE_URL st) [''oauth'', ''token''] = Inr path
     \<and> http_NewRequest W ''POST'' path = None
     \<and> client_Do W (new_http_Client c cert) (token_Request c path) = Inr res
     \<and> Response_Body res = Inr body
     \<and> StatusCode res \<noteq> 200 \<longrightarrow>
       Error (fst (OAuth W st)) \<noteq> None
       \<and> (json_Unmarshal_Token W body = Inr decoded \<longrightarrow>
            Error (fst (OAuth W st)) = Some (errors_New (''bad request: '' @ body)))
       \<and> (json_Unmarshal_Token W body = Inl err \<longrightarrow> Error (fst (OAuth W st)) = Some err)"
proof (intro impI, elim conjE)
  assume c: "Client st = Some c" and n: "checkToken W st = nil_Token"
    and steps: "tls_LoadX509KeyPair W (CA c) (Key c) = Inr cert"
      "url_JoinPath W (EFI_BASE_URL st) [''oauth'', ''token''] = Inr path"
      "http_NewRequest W ''POST'' path = None"
      "client_Do W (new_http_Client c cert) (token_Request c path) = Inr res"
      "Response_Body res = Inr body"
      "StatusCode res \<noteq> 200"
  show "Error (fst (OAuth W st)) \<noteq> None
       \<and> (json_Unmarshal_Token W body = Inr decoded \<longrightarrow>
            Error (fst (OAuth W st)) = Some (errors_New (''bad request: '' @ body)))
       \<and> (json_Unmarshal_Token W body = Inl err \<longrightarrow> Error (fst (OAuth W st)) = Some err)"
    unfolding OAuth_exchange[OF c n]
    by (simp add: steps Token_Error_def split: sum.splits)
qed


section \<open>Running the examples\<close>

lemma world_answering_simps:
  "clock_sec (world_answering post other) = 1700000000"
  "clock_nsec (world_answering post other) = 250000000"
  "int64_out_of_range (world_answering post other) x = - 9223372036854775808"
  "os_Stat (world_answering post other) name = Stat_ok"
  "tls_LoadX509KeyPair (world_answering post other) certFile keyFile = Inr (tls_Certificate certFile)"
  "url_JoinPath (world_answering post other) base elems = Inr (base @ concat (map (\<lambda>e. CHR ''/'' # e) elems))"
  "http_NewRequest (world_answering post other) method url = None"
  "client_Do (world_answering post other) client req = (if Method req = ''POST'' then Inr post else Inr other)"
  "json_Unmarshal_claims (world_answering post other) = read_claims"
  "json_Unmarshal_Token (world_answering post other) = read_Token"
  "json_Unmarshal_Webhook (world_answering post other) = read_Webhook"
  by (simp_all add: world_answering_def)

lemma clock_in_range_world_answering: "clock_in_range (world_answering post other)"
  by (simp add: clock_in_range_def world_answering_simps unixToInternal_def)

lemma jwt_with_no_space: "CHR '' '' \<notin> set (jwt_with payload)"
proof -
  have "CHR '' '' \<notin> set encodeURL"
    by (simp add: encodeURL_def)
  then have "CHR '' '' \<notin> set (RawURLEncoding_EncodeToString payload)"
    using encoded_in_alphabet[of payload] by auto
  then show ?thesis
    by (simp add: jwt_with_def)
qed

lemma decodeJWT_jwt_with:
  "decodeJWT W (jwt_with payload) =
     (case json_Unmarshal_claims W payload of
        Inl err \<Rightarrow> Inl (errors_New ''failed to decode JSON payload'')
      | Inr claims \<Rightarrow> Inr claims)"
  unfolding jwt_with_def by (rule decodeJWT_encoded) simp_all

lemma encode_examples:
  "RawURLEncoding_EncodeToString ''{\"exp\":1700000031}'' = ''eyJleHAiOjE3MDAwMDAwMzF9''"
  "RawURLEncoding_EncodeToString ''{\"sub\":\"efi\"}'' = ''eyJzdWIiOiJlZmkifQ''"
  "RawURLEncoding_EncodeToString ''{\"exp\":9223372036854774784}''
     = ''eyJleHAiOjkyMjMzNzIwMzY4NTQ3NzQ3ODR9''"
  by (simp_all add: RawURLEncoding_EncodeToString_def encodeURL_def)

lemma example_jwt_eq: "example_jwt = jwt_with ''{\"exp\":1700000031}''"
  by (simp add: example_jwt_def jwt_with_def encode_examples)

lemma far_future_jwt_eq: "far_future_jwt = jwt_with ''{\"exp\":9223372036854774784}''"
  by (simp add: far_future_jwt_def jwt_with_def encode_examples)

lemma cached_Bearer:
  "CHR '' '' \<notin> set v \<Longrightarrow> strings_Split (authorization (configured (Bearer v))) (CHR '' '') ! 1 = v"
  using Split_authorization[of "configured (Bearer v)"]
  by (simp add: configured_def Bearer_def)

lemma cached_Bearer_spaced:
  "CHR '' '' \<notin> set a \<Longrightarrow>
     strings_Split (authorization (configured (Bearer (a @ '' '' @ b)))) (CHR '' '') ! 1 = a"
  using Split_authorization_spaced[of "configured (Bearer (a @ '' '' @ b))" a b]
  by (simp add: configured_def Bearer_def)

lemma read_claims_examples:
  "read_claims ''{\"exp\":1700000031}'' = Inr [''exp'' \<mapsto> JSON_float64 1700000031]"
  "read_claims ''{\"exp\":1700000029}'' = Inr [''exp'' \<mapsto> JSON_float64 1700000029]"
  "read_claims ''{\"exp\":1700000000}'' = Inr [''exp'' \<mapsto> JSON_float64 1700000000]"
  "read_claims ''{\"exp\":9223372036854774784}'' = Inr [''exp'' \<mapsto> JSON_float64 9223372036854774784]"
  "read_claims ''{\"sub\":\"efi\"}'' = Inr [''sub'' \<mapsto> JSON_string ''efi'']"
  "read_claims ''{\"exp\":\"1700000031\"}'' = Inr [''exp'' \<mapsto> JSON_string ''1700000031'']"
  by (simp_all add: read_claims_def json_simps)

lemma jwt_with_not_Nil: "jwt_with payload \<noteq> []"
  by (simp add: jwt_with_def)

text \<open>The example tokens whose value holds a space.\<close>

lemma spaced_fresh_jwt_eq: "spaced_fresh_jwt = ''x'' @ '' '' @ example_jwt"
  by (simp add: spaced_fresh_jwt_def example_jwt_def)

lemma spaced_four_segments_eq: "spaced_four_segments = example_jwt @ '' '' @ ''x.y''"
  by (simp add: spaced_four_segments_def example_jwt_def)

lemma spaced_no_exp_eq: "spaced_no_exp = ''a'' @ '' '' @ ''b.eyJzdWIiOiJlZmkifQ.c''"
  by (simp add: spaced_no_exp_def)

lemma example_jwt_no_space: "CHR '' '' \<notin> set example_jwt"
  unfolding example_jwt_eq by (rule jwt_with_no_space)

lemma decodeJWT_spaced:
  "decodeJWT (world_answering post other) spaced_fresh_jwt = Inr [''exp'' \<mapsto> JSON_float64 1700000031]"
  "decodeJWT (world_answering post other) spaced_no_exp = Inr [''sub'' \<mapsto> JSON_string ''efi'']"
  "decodeJWT (world_answering post other) spaced_four_segments
     = Inl (errors_New ''invalid token: must have 3 parts'')"
  "decodeJWT (world_answering post other) ''x'' = Inl (errors_New ''invalid token: must have 3 parts'')"
  "decodeJWT (world_answering post other) ''a'' = Inl (errors_New ''invalid token: must have 3 parts'')"
proof -
  let ?W = "world_answering post other"
  have "decodeJWT ?W (''x eyJhbGciOiJSUzI1NiJ9'' @ ''.''
      @ RawURLEncoding_EncodeToString ''{\"exp\":1700000031}'' @ ''.'' @ ''c2ln'')
      = Inr [''exp'' \<mapsto> JSON_float64 1700000031]"
    by (subst decodeJWT_encoded) (simp_all add: world_answering_simps read_claims_examples)
  then show "decodeJWT ?W spaced_fresh_jwt = Inr [''exp'' \<mapsto> JSON_float64 1700000031]"
    by (simp add: spaced_fresh_jwt_def encode_examples)
  have "decodeJWT ?W (''a b'' @ ''.''
      @ RawURLEncoding_EncodeToString ''{\"sub\":\"efi\"}'' @ ''.'' @ ''c'')
      = Inr [''sub'' \<mapsto> JSON_string ''efi'']"
    by (subst decodeJWT_encoded) (simp_all add: world_answering_simps read_claims_examples)
  then show "decodeJWT ?W spaced_no_exp = Inr [''sub'' \<mapsto> JSON_string ''efi'']"
    by (simp add: spaced_no_exp_def encode_examples)
  show "decodeJWT ?W spaced_four_segments = Inl (errors_New ''invalid token: must have 3 parts'')"
    by (rule decodeJWT_segments) (simp add: length_strings_Split spaced_four_segments_def)
  show "decodeJWT ?W ''x'' = Inl (errors_New ''invalid token: must have 3 parts'')"
    by (rule decodeJWT_segments) (simp add: length_strings_Split)
  show "decodeJWT ?W ''a'' = Inl (errors_New ''invalid token: must have 3 parts'')"
    by (rule decodeJWT_segments) (simp add: length_strings_Split)
qed

lemma AccessToken_configured: "AccessToken (Authorization (configured (Bearer v))) = v"
  by (simp add: configured_def Bearer_def)

lemma TokenType_configured: "TokenType (Authorization (configured (Bearer v))) = ''Bearer''"
  by (simp add: configured_def Bearer_def)

text \<open>
  The expiry 9223372036854774784 fits \<^verbatim>\<open>int64\<close>, but with the offset of \<^verbatim>\<open>time.Unix\<close>
  added it does not: the sum wraps around, and the time is before every time of the clock.
\<close>

lemma far_future_not_After:
  "time_After (time_Unix (int64_of_float64 (world_answering post other) 9223372036854774784) 0)
      (time_Add (time_Now (world_answering post other)) (30 * time_Second)) = False"
proof -
  have t: "math_Trunc 9223372036854774784 = 9223372036854774784"
    using math_Trunc_of_int[of 9223372036854774784] by simp
  have i: "int64_of_float64 (world_answering post other) 9223372036854774784
      = 9223372036854774784"
    by (simp add: int64_of_float64_def t)
  have u: "time_Unix 9223372036854774784 0
      = \<lparr>Time_sec = - 9223371974719180032, Time_nsec = 0\<rparr>"
    by (simp add: time_Unix_def unixTime_def unixToInternal_def int64_def)
  show ?thesis
    unfolding i u time_Add_Now_in_range[OF clock_in_range_world_answering]
    by (simp add: time_After_def world_answering_simps unixToInternal_def)
qed

lemma example_jwt_no_exp_eq: "example_jwt_no_exp = jwt_with ''{\"sub\":\"efi\"}''"
  by (simp add: example_jwt_no_exp_def jwt_with_def RawURLEncoding_EncodeToString_def encodeURL_def)

lemma example_jwt_text_exp_eq: "example_jwt_text_exp = jwt_with ''{\"exp\":\"1700000031\"}''"
  by (simp add: example_jwt_text_exp_def jwt_with_def RawURLEncoding_EncodeToString_def encodeURL_def)

lemmas Token_simps = read_Token_def json_simps Bearer_def Token_zero_def BadRequest_zero_def
  to_string_def to_int_def BadRequest_field_def

lemma read_Token_examples:
  "read_Token (token_body example_jwt)
     = Inr (Bearer example_jwt)"
  "read_Token (token_body example_jwt_no_exp)
     = Inr (Bearer example_jwt_no_exp)"
  "read_Token (token_body example_jwt_text_exp)
     = Inr (Bearer example_jwt_text_exp)"
  "read_Token (token_body ''abc'')
     = Inr (Bearer ''abc'')"
  "read_Token ''{\"error\":\"invalid_client\"}''
     = Inr (Token_zero\<lparr>Token_BadRequest := BadRequest_zero\<lparr>BadRequest_Error := ''invalid_client''\<rparr>\<rparr>)"
  "read_Token ''<html>'' = Inl json_SyntaxError"
  "read_Token ''[1]'' = Inl json_UnmarshalTypeError"
  by (simp_all add: Token_simps token_body_def example_jwt_def example_jwt_no_exp_def
      example_jwt_text_exp_def)

lemma read_Token_spaced:
  "read_Token (token_body spaced_fresh_jwt) = Inr (Bearer spaced_fresh_jwt)"
  "read_Token (token_body spaced_four_segments) = Inr (Bearer spaced_four_segments)"
  "read_Token (token_body spaced_no_exp) = Inr (Bearer spaced_no_exp)"
  "read_Token (token_body far_future_jwt) = Inr (Bearer far_future_jwt)"
  by (simp_all add: Token_simps token_body_def spaced_fresh_jwt_def spaced_four_segments_def
      spaced_no_exp_def far_future_jwt_def)

lemma checkToken_cold: "checkToken W (configured Token_zero) = nil_Token"
  by (simp add: checkToken_def configured_def Token_zero_def)

lemma OAuth_example_exchange:
  assumes "checkToken (world_answering post other) (configured t) = nil_Token"
    and "Response_Body post = Inr body"
  shows "OAuth (world_answering post other) (configured t) =
     (case read_Token body of
        Inl err \<Rightarrow> (Token_Error err, configured t, example_calls)
      | Inr token \<Rightarrow>
          if StatusCode post \<noteq> 200
          then (Token_Error (errors_New (''bad request: '' @ body)), configured t, example_calls)
          else (token, configured token, example_calls))"
proof -
  have c: "Client (configured t) = Some example_Credentials"
    by (simp add: configured_def)
  show ?thesis
    unfolding OAuth_exchange[OF c assms(1)]
    by (simp add: world_answering_simps assms(2) token_Request_def example_Credentials_def
        example_calls_def configured_def EFI_STAGING_URL_def split: sum.splits)
qed

lemma NewClient_example:
  "NewClient (world_answering post other) example_Credentials globals_init = (None, configured Token_zero)"
  by (simp add: NewClient_def ValidateStruct_def Required_string_def Required_int_def fileExists_def
      world_answering_simps example_Credentials_def globals_init_def configured_def)

lemma reachable_configured_Bearer:
  assumes "read_Token (token_body v) = Inr (Bearer v)"
  shows "reachable (configured (Bearer v))"
proof -
  let ?W = "world_answering (token_response v) no_content"
  have "reachable (configured Token_zero)"
    using reachable_NewClient[OF reachable_init NewClient_example[of "token_response v" no_content]] .
  moreover have "OAuth ?W (configured Token_zero) = (Bearer v, configured (Bearer v), example_calls)"
    using OAuth_example_exchange[of "token_response v" no_content Token_zero, OF checkToken_cold]
    by (simp add: token_response_def assms)
  ultimately show ?thesis
    by (rule reachable_OAuth)
qed

lemmas reachable_examples =
  reachable_configured_Bearer[OF read_Token_examples(1)]
  reachable_configured_Bearer[OF read_Token_examples(2)]
  reachable_configured_Bearer[OF read_Token_examples(3)]
  reachable_configured_Bearer[OF read_Token_examples(4)]

lemmas reachable_spaced =
  reachable_configured_Bearer[OF read_Token_spaced(1)]
  reachable_configured_Bearer[OF read_Token_spaced(2)]
  reachable_configured_Bearer[OF read_Token_spaced(3)]
  reachable_configured_Bearer[OF read_Token_spaced(4)]

lemma decodeJWT_example_world:
  "decodeJWT example_world (jwt_with payload) =
     (case read_claims payload of
        Inl err \<Rightarrow> Inl (errors_New ''failed to decode JSON payload'')
      | Inr claims \<Rightarrow> Inr claims)"
  by (simp add: decodeJWT_jwt_with example_world_def world_answering_simps)

lemma cached_example:
  "strings_Split (authorization (configured (Bearer (jwt_with payload)))) (CHR '' '') ! 1 = jwt_with payload"
  by (rule cached_Bearer[OF jwt_with_no_space])

lemma configured_simps:
  "Client (configured t) = Some example_Credentials"
  "EFI_BASE_URL (configured t) = EFI_STAGING_URL"
  "Authorization (configured t) = t"
  by (simp_all add: configured_def)

text \<open>What the check answers for the example tokens, on the example clock.\<close>

lemma checkToken_example_exp:
  assumes "read_claims p = Inr [''exp'' \<mapsto> JSON_float64 (of_int x)]"
    and "expiry_in_range x"
  shows "checkToken (world_answering post other) (configured (Bearer (jwt_with p))) =
     (if 1700000030 < x then addr_Authorization else nil_Token)"
proof -
  let ?W = "world_answering post other"
  let ?st = "configured (Bearer (jwt_with p))"
  have a: "AccessToken (Authorization ?st) \<noteq> []"
    by (simp add: AccessToken_configured jwt_with_not_Nil)
  have d: "decodeJWT ?W (strings_Split (authorization ?st) (CHR '' '') ! 1)
      = Inr [''exp'' \<mapsto> JSON_float64 (of_int x)]"
    unfolding cached_example decodeJWT_jwt_with by (simp add: world_answering_simps assms(1))
  have e: "[''exp'' \<mapsto> JSON_float64 (of_int x)] ''exp'' = Some (JSON_float64 (of_int x))"
    by simp
  have r: "expiry_in_range (math_Trunc (of_int x))"
    using assms(2) by (simp only: math_Trunc_of_int)
  have n: "(0::int) \<le> 250000000" "(250000000::int) < 1000000000"
    by simp_all
  show ?thesis
    unfolding checkToken_exp_in_range[OF a d e clock_in_range_world_answering r]
      math_Trunc_of_int world_answering_simps nanoseconds_less[OF n]
    by simp
qed

lemma checkToken_examples:
  "checkToken (world_answering post other) (configured (Bearer example_jwt)) = addr_Authorization"
  "checkToken (world_answering post other) (configured (Bearer (jwt_with ''{\"exp\":1700000029}'')))
     = nil_Token"
  "checkToken (world_answering post other) (configured (Bearer far_future_jwt)) = nil_Token"
  "checkToken (world_answering post other) (configured (Bearer spaced_fresh_jwt))
     = addr_new (Token_Error (errors_New ''invalid token: must have 3 parts''))"
  "checkToken (world_answering post other) (configured (Bearer spaced_no_exp))
     = addr_new (Token_Error (errors_New ''invalid token: must have 3 parts''))"
  "checkToken (world_answering post other) (configured (Bearer spaced_four_segments))
     = addr_Authorization"
proof -
  let ?W = "world_answering post other"
  show fresh: "checkToken ?W (configured (Bearer example_jwt)) = addr_Authorization"
    using checkToken_example_exp[of "''{\"exp\":1700000031}''" 1700000031 post other]
    by (simp add: read_claims_examples expiry_in_range_def unixToInternal_def example_jwt_eq)
  show "checkToken ?W (configured (Bearer (jwt_with ''{\"exp\":1700000029}''))) = nil_Token"
    using checkToken_example_exp[of "''{\"exp\":1700000029}''" 1700000029 post other]
    by (simp add: read_claims_examples expiry_in_range_def unixToInternal_def)
  show "checkToken ?W (configured (Bearer far_future_jwt)) = nil_Token"
  proof -
    let ?st = "configured (Bearer far_future_jwt)"
    have a: "AccessToken (Authorization ?st) \<noteq> []"
      by (simp add: AccessToken_configured far_future_jwt_def)
    have d: "decodeJWT ?W (strings_Split (authorization ?st) (CHR '' '') ! 1)
        = Inr [''exp'' \<mapsto> JSON_float64 9223372036854774784]"
      unfolding far_future_jwt_eq cached_example decodeJWT_jwt_with
      by (simp add: world_answering_simps read_claims_examples)
    show ?thesis
      using checkToken_exp[OF a d] by (simp add: far_future_not_After)
  qed
  show "checkToken ?W (configured (Bearer spaced_fresh_jwt))
      = addr_new (Token_Error (errors_New ''invalid token: must have 3 parts''))"
  proof -
    have "strings_Split (authorization (configured (Bearer spaced_fresh_jwt))) (CHR '' '') ! 1
        = ''x''"
      unfolding spaced_fresh_jwt_eq by (rule cached_Bearer_spaced) simp
    then show ?thesis
      unfolding checkToken_error
      by (simp add: AccessToken_configured spaced_fresh_jwt_def decodeJWT_spaced)
  qed
  show "checkToken ?W (configured (Bearer spaced_no_exp))
      = addr_new (Token_Error (errors_New ''invalid token: must have 3 parts''))"
  proof -
    have "strings_Split (authorization (configured (Bearer spaced_no_exp))) (CHR '' '') ! 1
        = ''a''"
      unfolding spaced_no_exp_eq by (rule cached_Bearer_spaced) simp
    then show ?thesis
      unfolding checkToken_error
      by (simp add: AccessToken_configured spaced_no_exp_def decodeJWT_spaced)
  qed
  show "checkToken ?W (configured (Bearer spaced_four_segments)) = addr_Authorization"
  proof -
    let ?st = "configured (Bearer spaced_four_segments)"
    have t: "strings_Split (authorization ?st) (CHR '' '') ! 1 = example_jwt"
      unfolding spaced_four_segments_eq by (rule cached_Bearer_spaced[OF example_jwt_no_space])
    have t1: "strings_Split (authorization (configured (Bearer example_jwt))) (CHR '' '') ! 1
        = example_jwt"
      by (rule cached_Bearer[OF example_jwt_no_space])
    have "checkToken ?W ?st = checkToken ?W (configured (Bearer example_jwt))"
      unfolding checkToken_def t t1
      by (simp add: AccessToken_configured spaced_four_segments_def example_jwt_def)
    then show ?thesis
      using fresh by simp
  qed
qed

theorem checkToken_fresh_iff_witness:
  "clock_in_range example_world
   \<and> checkToken example_world (configured (Bearer example_jwt)) = addr_Authorization
   \<and> checkToken example_world (configured (Bearer (jwt_with ''{\"exp\":1700000029}''))) = nil_Token
   \<and> checkToken example_world (configured (Bearer (jwt_with ''{\"exp\":1700000000}''))) = nil_Token
   \<and> checkToken example_world (configured (Bearer [])) = nil_Token"
proof -
  let ?W = example_world
  have clock: "clock_in_range ?W"
    unfolding example_world_def by (rule clock_in_range_world_answering)
  have now: "clock_sec ?W = 1700000000"
    by (simp add: example_world_def world_answering_simps)
  have run: "(x = 1700000000 + 31 \<longrightarrow> checkToken ?W (configured (Bearer (jwt_with p))) = addr_Authorization)
      \<and> (x = 1700000000 + 29 \<longrightarrow> checkToken ?W (configured (Bearer (jwt_with p))) = nil_Token)
      \<and> (x = 1700000000 \<longrightarrow> checkToken ?W (configured (Bearer (jwt_with p))) = nil_Token)"
    if p: "read_claims p = Inr [''exp'' \<mapsto> JSON_float64 (of_int x)]"
      and x: "expiry_in_range x" for p x
  proof -
    let ?st = "configured (Bearer (jwt_with p))"
    have d: "decodeJWT ?W (jwt_with p) = Inr [''exp'' \<mapsto> JSON_float64 (of_int x)]"
      unfolding decodeJWT_jwt_with by (simp add: example_world_def world_answering_simps p)
    have h: "CHR '' '' \<notin> set (TokenType (Authorization ?st))
      \<and> CHR '' '' \<notin> set (AccessToken (Authorization ?st))
      \<and> clock_in_range ?W
      \<and> (\<forall>claims e. decodeJWT ?W (AccessToken (Authorization ?st)) = Inr claims
             \<and> claims ''exp'' = Some (JSON_float64 e) \<longrightarrow> expiry_in_range (math_Trunc e))"
      unfolding AccessToken_configured TokenType_configured d
      using clock x jwt_with_no_space[of p] by (auto simp: math_Trunc_of_int)
    have a: "AccessToken (Authorization ?st) \<noteq> []
      \<and> decodeJWT ?W (AccessToken (Authorization ?st)) = Inr [''exp'' \<mapsto> JSON_float64 (of_int x)]
      \<and> [''exp'' \<mapsto> JSON_float64 (of_int x)] ''exp'' = Some (JSON_float64 (of_int x))"
      unfolding AccessToken_configured d by (simp add: jwt_with_not_Nil)
    show ?thesis
      using checkToken_fresh_iff[where W = ?W and st = ?st
          and claims' = "[''exp'' \<mapsto> JSON_float64 (of_int x)]" and x = x,
          THEN conjunct1, THEN mp, OF h, THEN conjunct2, THEN mp, OF a]
      unfolding now .
  qed
  have "checkToken ?W (configured (Bearer (jwt_with ''{\"exp\":1700000031}''))) = addr_Authorization"
    using run[of "''{\"exp\":1700000031}''" 1700000031]
    by (simp add: read_claims_examples expiry_in_range_def unixToInternal_def)
  moreover have "checkToken ?W (configured (Bearer (jwt_with ''{\"exp\":1700000029}''))) = nil_Token"
    using run[of "''{\"exp\":1700000029}''" 1700000029]
    by (simp add: read_claims_examples expiry_in_range_def unixToInternal_def)
  moreover have "checkToken ?W (configured (Bearer (jwt_with ''{\"exp\":1700000000}''))) = nil_Token"
    using run[of "''{\"exp\":1700000000}''" 1700000000]
    by (simp add: read_claims_examples expiry_in_range_def unixToInternal_def)
  moreover have "checkToken ?W (configured (Bearer [])) = nil_Token"
    using checkToken_fresh_iff[where W = ?W and st = "configured (Bearer [])", THEN conjunct2]
    by (simp add: configured_def Bearer_def)
  ultimately show ?thesis
    using clock by (simp add: example_jwt_eq)
qed

text \<open>
  C1, as the claim states it, fails in two ways.  The check decodes the second
  space-separated field of \<^verbatim>\<open>authorization()\<close>, not the token value: the value
  \<^verbatim>\<open>x eyJhbGciOiJSUzI1NiJ9.eyJleHAiOjE3MDAwMDAwMzF9.c2ln\<close> is not empty and decodes to an
  \<^verbatim>\<open>exp\<close> 31 seconds after the current second, yet the check decodes \<^verbatim>\<open>x\<close> and answers with
  an error instead of the cached token.  And \<^verbatim>\<open>time.Unix\<close> adds its offset in \<^verbatim>\<open>int64\<close>:
  the value whose \<^verbatim>\<open>exp\<close> is 9223372036854774784 decodes to an expiry far after the current
  time plus 30 seconds, yet the sum wraps around to a time before the year 1 and the check
  answers \<^verbatim>\<open>nil\<close> (not fresh).
\<close>

theorem checkToken_fresh_value_not_fresh:
  "AccessToken (Authorization (configured (Bearer spaced_fresh_jwt))) \<noteq> []
   \<and> decodeJWT example_world (AccessToken (Authorization (configured (Bearer spaced_fresh_jwt))))
       = Inr [''exp'' \<mapsto> JSON_float64 1700000031]
   \<and> (clock_sec example_world + 30) * 1000000000 + clock_nsec example_world
       < 1700000031 * 1000000000
   \<and> checkToken example_world (configured (Bearer spaced_fresh_jwt))
       = addr_new (Token_Error (errors_New ''invalid token: must have 3 parts''))
   \<and> AccessToken (Authorization (configured (Bearer far_future_jwt))) \<noteq> []
   \<and> decodeJWT example_world (AccessToken (Authorization (configured (Bearer far_future_jwt))))
       = Inr [''exp'' \<mapsto> JSON_float64 9223372036854774784]
   \<and> (clock_sec example_world + 30) * 1000000000 + clock_nsec example_world
       < 9223372036854774784 * 1000000000
   \<and> checkToken example_world (configured (Bearer far_future_jwt)) = nil_Token"
proof -
  have "(clock_sec example_world + 30) * 1000000000 + clock_nsec example_world
      < 1700000031 * 1000000000"
    by (simp add: example_world_def world_answering_simps)
  moreover have "(clock_sec example_world + 30) * 1000000000 + clock_nsec example_world
      < 9223372036854774784 * 1000000000"
    by (simp add: example_world_def world_answering_simps)
  moreover have "spaced_fresh_jwt \<noteq> []" "far_future_jwt \<noteq> []"
    by (simp_all add: spaced_fresh_jwt_def far_future_jwt_def)
  moreover have "decodeJWT example_world far_future_jwt
      = Inr [''exp'' \<mapsto> JSON_float64 9223372036854774784]"
    unfolding far_future_jwt_eq decodeJWT_example_world by (simp add: read_claims_examples)
  ultimately show ?thesis
    unfolding AccessToken_configured
    by (simp add: example_world_def decodeJWT_spaced checkToken_examples)
qed

theorem OAuth_cache_replaced_only_on_200_witness:
  "fst (snd (OAuth example_world (configured Token_zero))) = configured (Bearer example_jwt)
   \<and> fst (snd (OAuth (world_answering invalid_client_response no_content)
         (configured (Bearer (jwt_with ''{\"exp\":1700000029}'')))))
       = configured (Bearer (jwt_with ''{\"exp\":1700000029}''))"
proof -
  let ?W = example_world
  let ?st = "configured Token_zero"
  have run: "OAuth ?W ?st = (Bearer example_jwt, configured (Bearer example_jwt), example_calls)"
    unfolding example_world_def
    using OAuth_example_exchange[of "token_response example_jwt" no_content Token_zero, OF checkToken_cold]
    by (simp add: token_response_def read_Token_examples)
  have ok: "\<exists>c cert path res body.
           Client ?st = Some c \<and> checkToken ?W ?st = nil_Token
           \<and> tls_LoadX509KeyPair ?W (CA c) (Key c) = Inr cert
           \<and> url_JoinPath ?W (EFI_BASE_URL ?st) [''oauth'', ''token''] = Inr path
           \<and> http_NewRequest ?W ''POST'' path = None
           \<and> client_Do ?W (new_http_Client c cert) (token_Request c path) = Inr res
           \<and> Response_Body res = Inr body
           \<and> json_Unmarshal_Token ?W body = Inr (Bearer example_jwt)
           \<and> StatusCode res = 200"
    by (simp add: checkToken_cold example_world_def world_answering_simps configured_simps
        token_Request_def token_response_def read_Token_examples)
  have first: "fst (snd (OAuth ?W ?st)) = configured (Bearer example_jwt)"
    using OAuth_cache_replaced_only_on_200[of ?W ?st "Bearer example_jwt"
        "configured (Bearer example_jwt)" example_calls] run ok
    by simp
  let ?V = "world_answering invalid_client_response no_content"
  let ?old = "configured (Bearer (jwt_with ''{\"exp\":1700000029}''))"
  have stale: "checkToken ?V ?old = nil_Token"
    by (rule checkToken_examples)
  have not_ok: "\<not> (\<exists>c cert path res body.
           Client ?old = Some c \<and> checkToken ?V ?old = nil_Token
           \<and> tls_LoadX509KeyPair ?V (CA c) (Key c) = Inr cert
           \<and> url_JoinPath ?V (EFI_BASE_URL ?old) [''oauth'', ''token''] = Inr path
           \<and> http_NewRequest ?V ''POST'' path = None
           \<and> client_Do ?V (new_http_Client c cert) (token_Request c path) = Inr res
           \<and> Response_Body res = Inr body
           \<and> json_Unmarshal_Token ?V body = Inr (fst (OAuth ?V ?old))
           \<and> StatusCode res = 200)"
    by (auto simp: world_answering_simps configured_simps token_Request_def
        invalid_client_response_def)
  have second: "fst (snd (OAuth ?V ?old)) = ?old"
    using OAuth_cache_replaced_only_on_200[of ?V ?old "fst (OAuth ?V ?old)"
        "fst (snd (OAuth ?V ?old))" "snd (snd (OAuth ?V ?old))"] not_ok
    by simp
  show ?thesis
    using first second by simp
qed

theorem OAuth_fresh_returns_cached_token_witness:
  "reachable (configured (Bearer example_jwt))
   \<and> OAuth example_world (configured (Bearer example_jwt))
       = (Bearer example_jwt, configured (Bearer example_jwt), [])
   \<and> authorization (configured (Bearer example_jwt)) = ''Bearer '' @ example_jwt"
proof -
  let ?W = example_world
  let ?st = "configured (Bearer example_jwt)"
  have t: "math_Trunc 1700000031 = 1700000031"
    using math_Trunc_of_int[of 1700000031] by simp
  have h: "reachable ?st
     \<and> CHR '' '' \<notin> set (TokenType (Authorization ?st))
     \<and> CHR '' '' \<notin> set (AccessToken (Authorization ?st))
     \<and> clock_in_range ?W
     \<and> AccessToken (Authorization ?st) \<noteq> []
     \<and> decodeJWT ?W (AccessToken (Authorization ?st)) = Inr [''exp'' \<mapsto> JSON_float64 1700000031]
     \<and> [''exp'' \<mapsto> JSON_float64 1700000031] ''exp'' = Some (JSON_float64 1700000031)
     \<and> expiry_in_range (math_Trunc 1700000031)
     \<and> (clock_sec ?W + 30) * 1000000000 + clock_nsec ?W < math_Trunc 1700000031 * 1000000000"
  proof -
    have d: "decodeJWT ?W example_jwt = Inr [''exp'' \<mapsto> JSON_float64 1700000031]"
      unfolding example_jwt_eq decodeJWT_example_world by (simp add: read_claims_examples)
    have c: "clock_in_range ?W"
      unfolding example_world_def by (rule clock_in_range_world_answering)
    have n: "clock_sec ?W = 1700000000" "clock_nsec ?W = 250000000"
      by (simp_all add: example_world_def world_answering_simps)
    have e: "example_jwt \<noteq> []"
      by (simp add: example_jwt_def)
    show ?thesis
      unfolding AccessToken_configured TokenType_configured t d n
      using reachable_examples(1) example_jwt_no_space c e
      by (simp add: expiry_in_range_def unixToInternal_def)
  qed
  show ?thesis
    using OAuth_fresh_returns_cached_token[where W = ?W and st = ?st
        and claims = "[''exp'' \<mapsto> JSON_float64 1700000031]" and e = 1700000031,
        THEN mp, OF h] reachable_examples(1)
    by (simp add: configured_def Bearer_def)
qed

text \<open>
  C5, as the claim states it, fails.  In the reachable state that caches the value
  \<^verbatim>\<open>x eyJhbGciOiJSUzI1NiJ9.eyJleHAiOjE3MDAwMDAwMzF9.c2ln\<close>, which is not empty and decodes
  to an \<^verbatim>\<open>exp\<close> 31 seconds after the current second, \<^verbatim>\<open>OAuth\<close> returns an error instead of
  the cached token; in the reachable state that caches the value whose \<^verbatim>\<open>exp\<close> is
  9223372036854774784, far after the current time plus 30 seconds, \<^verbatim>\<open>OAuth\<close> goes to the
  network and replaces the cached token.  And in the state that the claim's example leads
  to (the value \<^verbatim>\<open>abc\<close>, authorization \<^verbatim>\<open>Bearer abc\<close>) \<^verbatim>\<open>OAuth\<close> returns an error: \<^verbatim>\<open>abc\<close>
  has not three segments.
\<close>

theorem OAuth_fresh_value_not_returned:
  "reachable (configured (Bearer spaced_fresh_jwt))
   \<and> AccessToken (Authorization (configured (Bearer spaced_fresh_jwt))) \<noteq> []
   \<and> decodeJWT example_world (AccessToken (Authorization (configured (Bearer spaced_fresh_jwt))))
       = Inr [''exp'' \<mapsto> JSON_float64 1700000031]
   \<and> (clock_sec example_world + 30) * 1000000000 + clock_nsec example_world
       < 1700000031 * 1000000000
   \<and> OAuth example_world (configured (Bearer spaced_fresh_jwt))
       = (Token_Error (errors_New ''invalid token: must have 3 parts''),
          configured (Bearer spaced_fresh_jwt), [])
   \<and> reachable (configured (Bearer far_future_jwt))
   \<and> AccessToken (Authorization (configured (Bearer far_future_jwt))) \<noteq> []
   \<and> decodeJWT example_world (AccessToken (Authorization (configured (Bearer far_future_jwt))))
       = Inr [''exp'' \<mapsto> JSON_float64 9223372036854774784]
   \<and> (clock_sec example_world + 30) * 1000000000 + clock_nsec example_world
       < 9223372036854774784 * 1000000000
   \<and> OAuth example_world (configured (Bearer far_future_jwt))
       = (Bearer example_jwt, configured (Bearer example_jwt), example_calls)
   \<and> reachable (configured (Bearer ''abc''))
   \<and> authorization (configured (Bearer ''abc'')) = ''Bearer abc''
   \<and> OAuth example_world (configured (Bearer ''abc''))
       = (Token_Error (errors_New ''invalid token: must have 3 parts''),
          configured (Bearer ''abc''), [])"
proof -
  let ?W = example_world
  let ?err = "Token_Error (errors_New ''invalid token: must have 3 parts'')"
  have clock: "(clock_sec ?W + 30) * 1000000000 + clock_nsec ?W < 1700000031 * 1000000000"
    "(clock_sec ?W + 30) * 1000000000 + clock_nsec ?W < 9223372036854774784 * 1000000000"
    by (simp_all add: example_world_def world_answering_simps)
  have ne: "spaced_fresh_jwt \<noteq> []" "far_future_jwt \<noteq> []"
    by (simp_all add: spaced_fresh_jwt_def far_future_jwt_def)
  have d: "decodeJWT ?W far_future_jwt = Inr [''exp'' \<mapsto> JSON_float64 9223372036854774784]"
    unfolding far_future_jwt_eq decodeJWT_example_world by (simp add: read_claims_examples)
  have o1: "OAuth ?W (configured (Bearer spaced_fresh_jwt))
      = (?err, configured (Bearer spaced_fresh_jwt), [])"
    unfolding example_world_def
    by (rule OAuth_decode_error[OF configured_simps(1) checkToken_examples(4)])
  have o2: "OAuth ?W (configured (Bearer far_future_jwt))
      = (Bearer example_jwt, configured (Bearer example_jwt), example_calls)"
    unfolding example_world_def
    using OAuth_example_exchange[of "token_response example_jwt" no_content
        "Bearer far_future_jwt" "token_body example_jwt", OF checkToken_examples(3)]
    by (simp add: token_response_def read_Token_examples)
  have c3: "checkToken ?W (configured (Bearer ''abc'')) = addr_new ?err"
  proof -
    have "strings_Split (authorization (configured (Bearer ''abc''))) (CHR '' '') ! 1 = ''abc''"
      by (rule cached_Bearer) simp
    moreover have "decodeJWT ?W ''abc'' = Inl (errors_New ''invalid token: must have 3 parts'')"
      by (rule decodeJWT_segments) (simp add: length_strings_Split)
    ultimately show ?thesis
      unfolding checkToken_error by (simp add: AccessToken_configured)
  qed
  have o3: "OAuth ?W (configured (Bearer ''abc'')) = (?err, configured (Bearer ''abc''), [])"
    by (rule OAuth_decode_error[OF configured_simps(1) c3])
  have a3: "authorization (configured (Bearer ''abc'')) = ''Bearer abc''"
    by (simp add: authorization_def configured_def Bearer_def)
  show ?thesis
    unfolding AccessToken_configured
    using clock ne d o1 o2 o3 a3 reachable_spaced(1) reachable_spaced(4) reachable_examples(4)
    by (simp add: example_world_def decodeJWT_spaced)
qed

lemma decodeMap_None: "c \<notin> set encodeURL \<Longrightarrow> decodeMap c = None"
  unfolding decodeMap_def
  using map_of_zip_is_None[of encodeURL "[0..<64]" c]
  by (simp add: length_encodeURL)

theorem checkToken_surfaces_decode_failure_witness:
  "OAuth example_world (configured (Bearer ''abc''))
     = (Token_Error (errors_New ''invalid token: must have 3 parts''), configured (Bearer ''abc''), [])
   \<and> checkToken example_world (configured (Bearer ''abc''))
       = addr_new (Token_Error (errors_New ''invalid token: must have 3 parts''))
   \<and> decodeJWT example_world ''a.b'' = Inl (errors_New ''invalid token: must have 3 parts'')
   \<and> decodeJWT example_world ''a.!.c'' = Inl (errors_New ''failed to decode token payload'')
   \<and> decodeJWT example_world ''a.bm90IGpzb24.c'' = Inl (errors_New ''failed to decode JSON payload'')"
proof -
  let ?W = example_world
  let ?st = "configured (Bearer ''abc'')"
  let ?err = "errors_New ''invalid token: must have 3 parts''"
  have h: "reachable ?st
      \<and> CHR '' '' \<notin> set (TokenType (Authorization ?st))
      \<and> CHR '' '' \<notin> set (AccessToken (Authorization ?st))
      \<and> AccessToken (Authorization ?st) \<noteq> []
      \<and> decodeJWT ?W (AccessToken (Authorization ?st)) = Inl ?err"
    unfolding AccessToken_configured TokenType_configured using reachable_examples(4)
    by (simp add: decodeJWT_def)
  have s2: "length (strings_Split ''a.b'' (CHR ''.'')) \<noteq> 3"
    by simp
  have s3: "length (strings_Split ''a.!.c'' (CHR ''.'')) = 3
      \<and> RawURLEncoding_DecodeString (strings_Split ''a.!.c'' (CHR ''.'') ! 1)
          = Inl base64_CorruptInputError"
  proof -
    have "CHR ''!'' \<notin> set encodeURL"
      by (simp add: encodeURL_def)
    then show ?thesis
      by (simp add: RawURLEncoding_DecodeString_def decodeMap_None)
  qed
  have s4: "length (strings_Split ''a.bm90IGpzb24.c'' (CHR ''.'')) = 3
      \<and> RawURLEncoding_DecodeString (strings_Split ''a.bm90IGpzb24.c'' (CHR ''.'') ! 1) = Inr ''not json''
      \<and> json_Unmarshal_claims ?W ''not json'' = Inl json_SyntaxError"
  proof -
    have "RawURLEncoding_EncodeToString ''not json'' = ''bm90IGpzb24''"
      by (simp add: RawURLEncoding_EncodeToString_def encodeURL_def)
    then have "RawURLEncoding_DecodeString ''bm90IGpzb24'' = Inr ''not json''"
      using DecodeString_EncodeToString[of "''not json''"] by simp
    then show ?thesis
      by (simp add: example_world_def world_answering_simps read_claims_def json_simps)
  qed
  show ?thesis
    using checkToken_surfaces_decode_failure[where W = ?W and st = ?st and err = ?err,
        THEN conjunct1, THEN mp, OF h]
      checkToken_surfaces_decode_failure[where W = ?W and token = "''a.b''",
        THEN conjunct2, THEN conjunct1, THEN mp, OF s2]
      checkToken_surfaces_decode_failure[where W = ?W and token = "''a.!.c''"
        and ?e1.0 = "base64_CorruptInputError",
        THEN conjunct2, THEN conjunct2, THEN conjunct1, THEN mp, OF s3]
      checkToken_surfaces_decode_failure[where W = ?W and token = "''a.bm90IGpzb24.c''"
        and payload = "''not json''" and ?e2.0 = "json_SyntaxError",
        THEN conjunct2, THEN conjunct2, THEN conjunct2, THEN mp, OF s4]
    by simp
qed

text \<open>
  C6, as the claim states it, fails.  In the reachable state that caches the value
  \<^verbatim>\<open>eyJhbGciOiJSUzI1NiJ9.eyJleHAiOjE3MDAwMDAwMzF9.c2ln x.y\<close> the value is not empty and
  does not decode (it has four segments), yet the check decodes the part before the space,
  finds it fresh and answers with the address of \<^verbatim>\<open>Authorization\<close>, and \<^verbatim>\<open>OAuth\<close> returns
  the cached token, which holds no error.
\<close>

theorem checkToken_hides_decode_failure:
  "reachable (configured (Bearer spaced_four_segments))
   \<and> AccessToken (Authorization (configured (Bearer spaced_four_segments))) \<noteq> []
   \<and> decodeJWT example_world (AccessToken (Authorization (configured (Bearer spaced_four_segments))))
       = Inl (errors_New ''invalid token: must have 3 parts'')
   \<and> checkToken example_world (configured (Bearer spaced_four_segments)) = addr_Authorization
   \<and> OAuth example_world (configured (Bearer spaced_four_segments))
       = (Bearer spaced_four_segments, configured (Bearer spaced_four_segments), [])
   \<and> Error (Bearer spaced_four_segments) = None"
proof -
  let ?W = example_world
  have c: "checkToken ?W (configured (Bearer spaced_four_segments)) = addr_Authorization"
    unfolding example_world_def by (rule checkToken_examples)
  have o: "OAuth ?W (configured (Bearer spaced_four_segments))
      = (Bearer spaced_four_segments, configured (Bearer spaced_four_segments), [])"
    using OAuth_fresh[OF configured_simps(1) c] by (simp add: configured_simps)
  have "spaced_four_segments \<noteq> []"
    by (simp add: spaced_four_segments_def)
  then show ?thesis
    unfolding AccessToken_configured
    using c o reachable_spaced(2)
    by (simp add: example_world_def decodeJWT_spaced Bearer_def Token_zero_def)
qed

theorem checkToken_without_exp_is_stale_witness:
  "checkToken example_world (configured (Bearer example_jwt_no_exp)) = nil_Token
   \<and> OAuth example_world (configured (Bearer example_jwt_no_exp))
       = (Bearer example_jwt, configured (Bearer example_jwt), example_calls)
   \<and> checkToken example_world (configured (Bearer example_jwt_text_exp)) = nil_Token"
proof -
  let ?W = example_world
  have h: "reachable (configured (Bearer (jwt_with p))) \<Longrightarrow> read_claims p = Inr cl \<Longrightarrow>
      (\<forall>q. cl ''exp'' \<noteq> Some (JSON_float64 q)) \<Longrightarrow>
      reachable (configured (Bearer (jwt_with p)))
      \<and> CHR '' '' \<notin> set (TokenType (Authorization (configured (Bearer (jwt_with p)))))
      \<and> CHR '' '' \<notin> set (AccessToken (Authorization (configured (Bearer (jwt_with p)))))
      \<and> AccessToken (Authorization (configured (Bearer (jwt_with p)))) \<noteq> []
      \<and> decodeJWT ?W (AccessToken (Authorization (configured (Bearer (jwt_with p))))) = Inr cl
      \<and> (\<forall>q. cl ''exp'' \<noteq> Some (JSON_float64 q))" for p cl
    unfolding AccessToken_configured TokenType_configured
    by (simp add: jwt_with_not_Nil jwt_with_no_space decodeJWT_example_world)
  have h1: "reachable (configured (Bearer (jwt_with ''{\"sub\":\"efi\"}'')))"
    using reachable_examples(2) by (simp add: example_jwt_no_exp_eq)
  have h2: "reachable (configured (Bearer (jwt_with ''{\"exp\":\"1700000031\"}'')))"
    using reachable_examples(3) by (simp add: example_jwt_text_exp_eq)
  note a = checkToken_without_exp_is_stale[where W = ?W
      and st = "configured (Bearer (jwt_with ''{\"sub\":\"efi\"}''))"
      and claims = "[''sub'' \<mapsto> JSON_string ''efi'']",
      THEN mp, OF h[OF h1 read_claims_examples(5)]]
  note b = checkToken_without_exp_is_stale[where W = ?W
      and st = "configured (Bearer (jwt_with ''{\"exp\":\"1700000031\"}''))"
      and claims = "[''exp'' \<mapsto> JSON_string ''1700000031'']",
      THEN mp, OF h[OF h2 read_claims_examples(6)]]
  have n1: "checkToken ?W (configured (Bearer example_jwt_no_exp)) = nil_Token"
    using a by (simp add: example_jwt_no_exp_eq)
  have n2: "checkToken ?W (configured (Bearer example_jwt_text_exp)) = nil_Token"
    using b by (simp add: example_jwt_text_exp_eq)
  have "OAuth ?W (configured (Bearer example_jwt_no_exp))
       = (Bearer example_jwt, configured (Bearer example_jwt), example_calls)"
    using OAuth_example_exchange[of "token_response example_jwt" no_content
        "Bearer example_jwt_no_exp" "token_body example_jwt"] n1
    by (simp add: example_world_def token_response_def read_Token_examples)
  then show ?thesis
    using n1 n2 by simp
qed

text \<open>
  C10, as the claim states it, fails.  In the reachable state that caches the value
  \<^verbatim>\<open>a b.eyJzdWIiOiJlZmkifQ.c\<close> the value is not empty and decodes to claims without
  \<^verbatim>\<open>exp\<close>, yet the check decodes the part \<^verbatim>\<open>a\<close> before the space and answers with an error,
  and \<^verbatim>\<open>OAuth\<close> returns that error without any exchange.
\<close>

theorem checkToken_without_exp_reports_error:
  "reachable (configured (Bearer spaced_no_exp))
   \<and> AccessToken (Authorization (configured (Bearer spaced_no_exp))) \<noteq> []
   \<and> decodeJWT example_world (AccessToken (Authorization (configured (Bearer spaced_no_exp))))
       = Inr [''sub'' \<mapsto> JSON_string ''efi'']
   \<and> [''sub'' \<mapsto> JSON_string ''efi''] ''exp'' = None
   \<and> checkToken example_world (configured (Bearer spaced_no_exp))
       = addr_new (Token_Error (errors_New ''invalid token: must have 3 parts''))
   \<and> OAuth example_world (configured (Bearer spaced_no_exp))
       = (Token_Error (errors_New ''invalid token: must have 3 parts''),
          configured (Bearer spaced_no_exp), [])
   \<and> Error (Token_Error (errors_New ''invalid token: must have 3 parts''))
       = Some (errors_New ''invalid token: must have 3 parts'')"
proof -
  let ?W = example_world
  let ?err = "Token_Error (errors_New ''invalid token: must have 3 parts'')"
  have c: "checkToken ?W (configured (Bearer spaced_no_exp)) = addr_new ?err"
    unfolding example_world_def by (rule checkToken_examples)
  have o: "OAuth ?W (configured (Bearer spaced_no_exp))
      = (?err, configured (Bearer spaced_no_exp), [])"
    by (rule OAuth_decode_error[OF configured_simps(1) c])
  have "spaced_no_exp \<noteq> []"
    by (simp add: spaced_no_exp_def)
  then show ?thesis
    unfolding AccessToken_configured
    using c o reachable_spaced(3)
    by (simp add: example_world_def decodeJWT_spaced Token_Error_def)
qed

text \<open>
  C2, as the claim states it, fails: after status 400 with the body
  \<^verbatim>\<open>{"error":"invalid_client"}\<close> the returned \<^verbatim>\<open>Token\<close> holds the error text with the raw
  body, but none of the fields decoded from the body (the decoded error code is
  \<^verbatim>\<open>invalid_client\<close>, the returned one is empty); and after a body that is not JSON
  (\<^verbatim>\<open><html>\<close>, status 502) or that is JSON but no object (\<^verbatim>\<open>[1]\<close>, status 400) the returned
  error is the one of \<^verbatim>\<open>json.Unmarshal\<close>, without the body.
\<close>

theorem OAuth_non_200_drops_decoded_fields:
  "json_Unmarshal_Token (world_answering invalid_client_response no_content)
       ''{\"error\":\"invalid_client\"}''
     = Inr (Token_zero\<lparr>Token_BadRequest := BadRequest_zero\<lparr>BadRequest_Error := ''invalid_client''\<rparr>\<rparr>)
   \<and> fst (OAuth (world_answering invalid_client_response no_content) (configured Token_zero))
       = Token_Error (errors_New ''bad request: {\"error\":\"invalid_client\"}'')
   \<and> BadRequest_Error (Token_BadRequest
         (fst (OAuth (world_answering invalid_client_response no_content) (configured Token_zero))))
       = []
   \<and> Token_BadRequest
         (fst (OAuth (world_answering invalid_client_response no_content) (configured Token_zero)))
       \<noteq> Token_BadRequest
           (Token_zero\<lparr>Token_BadRequest := BadRequest_zero\<lparr>BadRequest_Error := ''invalid_client''\<rparr>\<rparr>)
   \<and> fst (OAuth (world_answering bad_gateway_response no_content) (configured Token_zero))
       = Token_Error json_SyntaxError
   \<and> fst (OAuth (world_answering array_response no_content) (configured Token_zero))
       = Token_Error json_UnmarshalTypeError"
proof -
  have a: "OAuth (world_answering invalid_client_response no_content) (configured Token_zero)
      = (Token_Error (errors_New ''bad request: {\"error\":\"invalid_client\"}''),
         configured Token_zero, example_calls)"
    using OAuth_example_exchange[of invalid_client_response no_content Token_zero
        "''{\"error\":\"invalid_client\"}''", OF checkToken_cold]
    by (simp add: invalid_client_response_def read_Token_examples)
  have b: "OAuth (world_answering bad_gateway_response no_content) (configured Token_zero)
      = (Token_Error json_SyntaxError, configured Token_zero, example_calls)"
    using OAuth_example_exchange[of bad_gateway_response no_content Token_zero "''<html>''",
        OF checkToken_cold]
    by (simp add: bad_gateway_response_def read_Token_examples)
  have c: "OAuth (world_answering array_response no_content) (configured Token_zero)
      = (Token_Error json_UnmarshalTypeError, configured Token_zero, example_calls)"
    using OAuth_example_exchange[of array_response no_content Token_zero "''[1]''",
        OF checkToken_cold]
    by (simp add: array_response_def read_Token_examples)
  show ?thesis
    unfolding a b c
    by (simp add: world_answering_simps read_Token_examples Token_Error_def Token_zero_def
        BadRequest_zero_def)
qed

theorem OAuth_non_200_wraps_raw_body_witness:
  "Error (fst (OAuth (world_answering invalid_client_response no_content) (configured Token_zero)))
     = Some (errors_New ''bad request: {\"error\":\"invalid_client\"}'')
   \<and> Error (fst (OAuth (world_answering bad_gateway_response no_content) (configured Token_zero)))
       = Some json_SyntaxError
   \<and> Error (fst (OAuth (world_answering array_response no_content) (configured Token_zero)))
       = Some json_UnmarshalTypeError"
proof -
  let ?st = "configured Token_zero"
  let ?path = "''https://pix-h.api.efipay.com.br/oauth/token''"
  have h: "Client ?st = Some example_Credentials
      \<and> checkToken (world_answering post no_content) ?st = nil_Token
      \<and> tls_LoadX509KeyPair (world_answering post no_content) (CA example_Credentials)
            (Key example_Credentials) = Inr (tls_Certificate ''cert.pem'')
      \<and> url_JoinPath (world_answering post no_content) (EFI_BASE_URL ?st) [''oauth'', ''token'']
            = Inr ?path
      \<and> http_NewRequest (world_answering post no_content) ''POST'' ?path = None
      \<and> client_Do (world_answering post no_content)
            (new_http_Client example_Credentials (tls_Certificate ''cert.pem''))
            (token_Request example_Credentials ?path) = Inr post
      \<and> Response_Body post = Inr body
      \<and> StatusCode post \<noteq> 200"
    if "Response_Body post = Inr body" "StatusCode post \<noteq> 200" for post body
    using that
    by (simp add: configured_simps checkToken_cold world_answering_simps example_Credentials_def
        EFI_STAGING_URL_def token_Request_def)
  have h400: "Response_Body invalid_client_response = Inr ''{\"error\":\"invalid_client\"}''"
      "StatusCode invalid_client_response \<noteq> 200"
    by (simp_all add: invalid_client_response_def)
  have h502: "Response_Body bad_gateway_response = Inr ''<html>''"
      "StatusCode bad_gateway_response \<noteq> 200"
    by (simp_all add: bad_gateway_response_def)
  have harr: "Response_Body array_response = Inr ''[1]''"
      "StatusCode array_response \<noteq> 200"
    by (simp_all add: array_response_def)
  show ?thesis
    using OAuth_non_200_wraps_raw_body[where W = "world_answering invalid_client_response no_content"
        and st = ?st and c = example_Credentials and cert = "tls_Certificate ''cert.pem''"
        and path = ?path and res = invalid_client_response
        and body = "''{\"error\":\"invalid_client\"}''"
        and decoded = "Token_zero\<lparr>Token_BadRequest := BadRequest_zero\<lparr>BadRequest_Error := ''invalid_client''\<rparr>\<rparr>",
        THEN mp, OF h[OF h400]]
      OAuth_non_200_wraps_raw_body[where W = "world_answering bad_gateway_response no_content"
        and st = ?st and c = example_Credentials and cert = "tls_Certificate ''cert.pem''"
        and path = ?path and res = bad_gateway_response and body = "''<html>''"
        and err = "json_SyntaxError",
        THEN mp, OF h[OF h502]]
      OAuth_non_200_wraps_raw_body[where W = "world_answering array_response no_content"
        and st = ?st and c = example_Credentials and cert = "tls_Certificate ''cert.pem''"
        and path = ?path and res = array_response and body = "''[1]''"
        and err = "json_UnmarshalTypeError",
        THEN mp, OF h[OF harr]]
    by (simp add: world_answering_simps read_Token_examples)
qed

section \<open>The credential store\<close>

lemma ValidateStruct_None:
  "ValidateStruct c = None \<longleftrightarrow>
     ClientID c \<noteq> [] \<and> ClientSecret c \<noteq> [] \<and> Timeout c \<noteq> 0 \<and> CA c \<noteq> [] \<and> Key c \<noteq> []"
  by (auto simp: ValidateStruct_def Required_string_def Required_int_def)

lemma NewClient_None:
  "fst (NewClient W c st) = None \<longleftrightarrow>
     ClientID c \<noteq> [] \<and> ClientSecret c \<noteq> [] \<and> Timeout c \<noteq> 0 \<and> CA c \<noteq> [] \<and> Key c \<noteq> []
     \<and> os_Stat W (CA c) \<noteq> Stat_not_exist \<and> os_Stat W (Key c) \<noteq> Stat_not_exist"
proof (cases "ValidateStruct c")
  case None
  then show ?thesis
    using ValidateStruct_None[of c]
    by (simp add: NewClient_def fileExists_def)
next
  case (Some err)
  then show ?thesis
    using ValidateStruct_None[of c]
    by (auto simp: NewClient_def)
qed

text \<open>
  C7, as the code has it.  \<^verbatim>\<open>NewClient\<close> fails whenever the client id, the client
  secret, the certificate path or the key path is empty or the timeout is zero, and it
  succeeds only with a timeout other than zero; a negative timeout is accepted when the
  other fields are present and the two files exist.
\<close>

theorem NewClient_requires_fields:
  "(ClientID c = [] \<or> ClientSecret c = [] \<or> Timeout c = 0 \<or> CA c = [] \<or> Key c = [] \<longrightarrow>
      fst (NewClient W c st) \<noteq> None)
   \<and> (fst (NewClient W c st) = None \<longrightarrow> Timeout c \<noteq> 0)
   \<and> (Timeout c < 0 \<and> ClientID c \<noteq> [] \<and> ClientSecret c \<noteq> [] \<and> CA c \<noteq> [] \<and> Key c \<noteq> []
        \<and> os_Stat W (CA c) \<noteq> Stat_not_exist \<and> os_Stat W (Key c) \<noteq> Stat_not_exist \<longrightarrow>
        fst (NewClient W c st) = None)"
  unfolding NewClient_None by auto

text \<open>
  C7, as the claim states it, fails: with a timeout of \<open>-1\<close>, the other fields present
  and both files in place, the configuration succeeds.
\<close>

theorem NewClient_accepts_negative_timeout:
  "fst (NewClient example_world (example_Credentials\<lparr>Timeout := - 1\<rparr>) globals_init) = None"
  unfolding NewClient_None
  by (simp add: example_Credentials_def example_world_def world_answering_simps)

theorem NewClient_requires_fields_witness:
  "fst (NewClient example_world (example_Credentials\<lparr>ClientID := []\<rparr>) globals_init) \<noteq> None
   \<and> fst (NewClient example_world (example_Credentials\<lparr>Timeout := 0\<rparr>) globals_init) \<noteq> None
   \<and> fst (NewClient example_world (example_Credentials\<lparr>Timeout := - 5\<rparr>) globals_init) = None"
  using NewClient_requires_fields[of "example_Credentials\<lparr>ClientID := []\<rparr>" example_world globals_init]
    NewClient_requires_fields[of "example_Credentials\<lparr>Timeout := 0\<rparr>" example_world globals_init]
    NewClient_requires_fields[of "example_Credentials\<lparr>Timeout := - 5\<rparr>" example_world globals_init]
  by (simp add: example_Credentials_def example_world_def world_answering_simps)

text \<open>
  C9.  A call of \<^verbatim>\<open>NewClient\<close> that fails leaves the package variables as they were;
  it fails, in particular, when a required field is missing or when the certificate or
  the key file does not exist, and then the active credentials and the base URL are the
  ones from before the call.
\<close>

theorem NewClient_failure_keeps_configuration:
  "(fst (NewClient W c st) \<noteq> None \<longrightarrow> snd (NewClient W c st) = st)
   \<and> (ClientID c = [] \<or> ClientSecret c = [] \<or> Timeout c = 0 \<or> CA c = [] \<or> Key c = []
        \<or> os_Stat W (CA c) = Stat_not_exist \<or> os_Stat W (Key c) = Stat_not_exist \<longrightarrow>
        fst (NewClient W c st) \<noteq> None
        \<and> Client (snd (NewClient W c st)) = Client st
        \<and> EFI_BASE_URL (snd (NewClient W c st)) = EFI_BASE_URL st)"
proof -
  have keep: "snd (NewClient W c st) = st" if "fst (NewClient W c st) \<noteq> None"
    using that NewClient_state[of W c st "fst (NewClient W c st)" "snd (NewClient W c st)"]
    by auto
  show ?thesis
    using keep NewClient_None[of W c st] by auto
qed

theorem NewClient_failure_keeps_configuration_witness:
  "NewClient example_world (example_Credentials\<lparr>ClientSecret := [], Sandbox := False\<rparr>)
       (configured (Bearer example_jwt))
     = (Some (errors_New ''ClientSecret: cannot be blank.''), configured (Bearer example_jwt))
   \<and> NewClient (example_world\<lparr>os_Stat := (\<lambda>name. Stat_not_exist)\<rparr>)
         (example_Credentials\<lparr>Sandbox := False\<rparr>) (configured (Bearer example_jwt))
       = (Some (errors_New ''file cert.pem not found''), configured (Bearer example_jwt))"
proof -
  let ?st = "configured (Bearer example_jwt)"
  let ?c1 = "example_Credentials\<lparr>ClientSecret := [], Sandbox := False\<rparr>"
  let ?c2 = "example_Credentials\<lparr>Sandbox := False\<rparr>"
  let ?W2 = "example_world\<lparr>os_Stat := (\<lambda>name. Stat_not_exist)\<rparr>"
  have e1: "fst (NewClient example_world ?c1 ?st) = Some (errors_New ''ClientSecret: cannot be blank.'')"
    by (simp add: NewClient_def ValidateStruct_def Required_string_def Required_int_def
        Errors_string_def example_Credentials_def)
  have e2: "fst (NewClient ?W2 ?c2 ?st) = Some (errors_New ''file cert.pem not found'')"
    by (simp add: NewClient_def ValidateStruct_def Required_string_def Required_int_def
        fileExists_def example_Credentials_def)
  have "snd (NewClient example_world ?c1 ?st) = ?st"
    using NewClient_failure_keeps_configuration[of example_world ?c1 ?st] e1 by simp
  moreover have "snd (NewClient ?W2 ?c2 ?st) = ?st"
    using NewClient_failure_keeps_configuration[of ?W2 ?c2 ?st] e2 by simp
  ultimately show ?thesis
    using e1 e2 by (simp add: prod_eq_iff)
qed


section \<open>Webhook deletion\<close>

lemma OAuth_ok_configured:
  assumes "OAuth W st = (token, st1, calls0)" "Error token = None"
  shows "Client st1 \<noteq> None"
proof (cases "Client st")
  case None
  then show ?thesis
    using assms by (auto simp: OAuth_not_configured Token_Error_def)
next
  case (Some c)
  then show ?thesis
    using OAuth_state[OF assms(1)] by auto
qed

lemma Delete_no_panic: "Delete W0 W w st \<noteq> None"
proof -
  obtain token st1 calls0 where o: "OAuth W0 st = (token, st1, calls0)"
    by (cases "OAuth W0 st") auto
  show ?thesis
  proof (cases "Error token")
    case None
    then obtain c where "Client st1 = Some c"
      using OAuth_ok_configured[OF o] by auto
    then show ?thesis
      by (simp add: Delete_def o None Let_def split: sum.splits option.splits prod.splits)
  next
    case (Some err)
    then show ?thesis
      by (simp add: Delete_def o)
  qed
qed

text \<open>
  C8.  A deletion never panics.  Once \<^verbatim>\<open>OAuth\<close> has returned a token without error and
  the request has been answered with a response whose body could be read: with status
  204 the call returns no error, whether or not the body parses; with any other status it
  returns an error, the parse error if the body does not parse and the error
  \<^verbatim>\<open>bad request\<close> otherwise.
\<close>

theorem Delete_status_decides:
  "Delete W0 W w st \<noteq> None
   \<and> (OAuth W0 st = (token, st1, calls0) \<and> Error token = None \<and> Client st1 = Some c
        \<and> tls_LoadX509KeyPair W (CA c) (Key c) = Inr cert
        \<and> url_JoinPath W (EFI_BASE_URL st1) [''v2'', ''webhook'', Chave w] = Inr path
        \<and> http_NewRequest W ''DELETE'' path = None
        \<and> client_Do W (new_http_Client c cert) (delete_Request st1 path) = Inr res
        \<and> Response_Body res = Inr body
        \<and> json_Unmarshal_Webhook W body w = (uerr, w') \<longrightarrow>
          Delete W0 W w st =
            Some (if StatusCode res = 204 then None
                  else if uerr \<noteq> None then uerr
                  else Some (errors_New ''bad request''),
                  w', st1,
                  calls0 @ [io_LoadX509KeyPair (CA c) (Key c),
                            io_Do (new_http_Client c cert) (delete_Request st1 path)]))"
proof (intro conjI impI)
  show "Delete W0 W w st \<noteq> None"
    by (rule Delete_no_panic)
next
  assume "OAuth W0 st = (token, st1, calls0) \<and> Error token = None \<and> Client st1 = Some c
        \<and> tls_LoadX509KeyPair W (CA c) (Key c) = Inr cert
        \<and> url_JoinPath W (EFI_BASE_URL st1) [''v2'', ''webhook'', Chave w] = Inr path
        \<and> http_NewRequest W ''DELETE'' path = None
        \<and> client_Do W (new_http_Client c cert) (delete_Request st1 path) = Inr res
        \<and> Response_Body res = Inr body
        \<and> json_Unmarshal_Webhook W body w = (uerr, w')"
  then show "Delete W0 W w st =
            Some (if StatusCode res = 204 then None
                  else if uerr \<noteq> None then uerr
                  else Some (errors_New ''bad request''),
                  w', st1,
                  calls0 @ [io_LoadX509KeyPair (CA c) (Key c),
                            io_Do (new_http_Client c cert) (delete_Request st1 path)])"
    by (simp add: Delete_def Let_def)
qed

lemma read_Webhook_examples:
  "read_Webhook [] w = (Some json_SyntaxError, w)"
  "read_Webhook ''{\"nome\":\"webhook_nao_encontrado\"}'' w = (None, w)"
  by (simp_all add: read_Webhook_def json_simps BadRequest_field_def)

lemma OAuth_example_fresh:
  "OAuth example_world (configured (Bearer example_jwt))
     = (Bearer example_jwt, configured (Bearer example_jwt), [])"
proof -
  have "checkToken example_world (configured (Bearer example_jwt)) = addr_Authorization"
    unfolding example_world_def by (rule checkToken_examples)
  then show ?thesis
    using OAuth_fresh[of "configured (Bearer example_jwt)" example_Credentials example_world]
    by (simp add: configured_simps)
qed

theorem Delete_status_decides_witness:
  "Delete example_world example_world example_Webhook (configured (Bearer example_jwt))
     = Some (None, example_Webhook, configured (Bearer example_jwt),
         [io_LoadX509KeyPair ''cert.pem'' ''key.pem'',
          io_Do (new_http_Client example_Credentials (tls_Certificate ''cert.pem''))
            (delete_Request (configured (Bearer example_jwt))
               ''https://pix-h.api.efipay.com.br/v2/webhook/chave-1'')])
   \<and> fst (the (Delete example_world
         (world_answering (token_response example_jwt) \<lparr>StatusCode = 500, Response_Body = Inr []\<rparr>)
         example_Webhook (configured (Bearer example_jwt))))
       = Some json_SyntaxError
   \<and> fst (the (Delete example_world
         (world_answering (token_response example_jwt)
            \<lparr>StatusCode = 404, Response_Body = Inr ''{\"nome\":\"webhook_nao_encontrado\"}''\<rparr>)
         example_Webhook (configured (Bearer example_jwt))))
       = Some (errors_New ''bad request'')"
proof -
  let ?st = "configured (Bearer example_jwt)"
  let ?path = "''https://pix-h.api.efipay.com.br/v2/webhook/chave-1''"
  let ?cert = "tls_Certificate ''cert.pem''"
  note fresh = OAuth_example_fresh
  have h: "OAuth example_world ?st = (Bearer example_jwt, ?st, [])
      \<and> Error (Bearer example_jwt) = None \<and> Client ?st = Some example_Credentials
      \<and> tls_LoadX509KeyPair (world_answering post other) (CA example_Credentials)
           (Key example_Credentials) = Inr ?cert
      \<and> url_JoinPath (world_answering post other) (EFI_BASE_URL ?st)
           [''v2'', ''webhook'', Chave example_Webhook] = Inr ?path
      \<and> http_NewRequest (world_answering post other) ''DELETE'' ?path = None
      \<and> client_Do (world_answering post other) (new_http_Client example_Credentials ?cert)
           (delete_Request ?st ?path) = Inr other
      \<and> Response_Body other = Inr body
      \<and> json_Unmarshal_Webhook (world_answering post other) body example_Webhook
           = read_Webhook body example_Webhook"
    if "Response_Body other = Inr body" for post other body
    using that fresh
    by (simp add: configured_simps world_answering_simps example_Credentials_def
        EFI_STAGING_URL_def example_Webhook_def delete_Request_def Bearer_def Token_zero_def)
  have b1: "Response_Body no_content = Inr []"
    by (simp add: no_content_def)
  note d1 = Delete_status_decides[where ?W0.0 = example_world
      and W = "world_answering (token_response example_jwt) no_content"
      and w = example_Webhook and st = ?st and token = "Bearer example_jwt" and ?st1.0 = ?st
      and ?calls0.0 = "[]" and c = example_Credentials and cert = ?cert and path = ?path
      and res = no_content and body = "[]"
      and uerr = "Some json_SyntaxError" and w' = example_Webhook,
      THEN conjunct2, THEN mp]
  note d2 = Delete_status_decides[where ?W0.0 = example_world
      and W = "world_answering (token_response example_jwt) \<lparr>StatusCode = 500, Response_Body = Inr []\<rparr>"
      and w = example_Webhook and st = ?st and token = "Bearer example_jwt" and ?st1.0 = ?st
      and ?calls0.0 = "[]" and c = example_Credentials and cert = ?cert and path = ?path
      and res = "\<lparr>StatusCode = 500, Response_Body = Inr []\<rparr>" and body = "[]"
      and uerr = "Some json_SyntaxError" and w' = example_Webhook,
      THEN conjunct2, THEN mp]
  note d3 = Delete_status_decides[where ?W0.0 = example_world
      and W = "world_answering (token_response example_jwt)
          \<lparr>StatusCode = 404, Response_Body = Inr ''{\"nome\":\"webhook_nao_encontrado\"}''\<rparr>"
      and w = example_Webhook and st = ?st and token = "Bearer example_jwt" and ?st1.0 = ?st
      and ?calls0.0 = "[]" and c = example_Credentials and cert = ?cert and path = ?path
      and res = "\<lparr>StatusCode = 404, Response_Body = Inr ''{\"nome\":\"webhook_nao_encontrado\"}''\<rparr>"
      and body = "''{\"nome\":\"webhook_nao_encontrado\"}''"
      and uerr = None and w' = example_Webhook,
      THEN conjunct2, THEN mp]
  show ?thesis
    using d1 d2 d3 h[of no_content "[]"] h[of "\<lparr>StatusCode = 500, Response_Body = Inr []\<rparr>" "[]"]
      h[of "\<lparr>StatusCode = 404, Response_Body = Inr ''{\"nome\":\"webhook_nao_encontrado\"}''\<rparr>"
        "''{\"nome\":\"webhook_nao_encontrado\"}''"]
    by (simp add: read_Webhook_examples example_world_def no_content_def example_Credentials_def)
qed

end
